theory Spec2Isabelle
  imports Main "HOL-Library.Word" "HOL-Library.Log_Nat"
begin

section \<open>Python values, exceptions and the environment\<close>

text \<open>
  An exception raised by the source is a value of type \<open>error\<close>; a function that can
  raise returns \<open>error + 'a\<close>, with \<open>Inl\<close> for the exception.  The built-in classes
  keep their Python names.  \<open>DatasetNotFoundError\<close>, \<open>RGBBandsMissingError\<close> and
  \<open>DependencyNotFoundError\<close> are the classes the module imports from its package;
  \<open>DownloadError\<close> stands for whatever the download helper raises.
\<close>

datatype error =
    AssertionError string
  | ValueError string
  | TypeError string
  | IndexError
  | RuntimeError
  | OSError
  | ModuleNotFoundError
  | DependencyNotFoundError
  | DatasetNotFoundError
  | RGBBandsMissingError
  | DownloadError

text \<open>\<open>isinstance(e, TypeError)\<close>: none of the other classes derives from \<open>TypeError\<close>.\<close>

fun is_TypeError :: "error \<Rightarrow> bool" where
  "is_TypeError (TypeError m) = True"
| "is_TypeError e = False"

definition bindE :: "error + 'a \<Rightarrow> ('a \<Rightarrow> error + 'b) \<Rightarrow> error + 'b" where
  "bindE m f = (case m of Inl e \<Rightarrow> Inl e | Inr v \<Rightarrow> f v)"

text \<open>
  The \<open>bands\<close> argument is annotated \<open>Sequence[str]\<close>.  The values that pass
  \<open>isinstance(bands, Sequence)\<close> are lists, tuples and strings; a set, \<open>None\<close> and an
  integer do not.
\<close>

datatype pyseq = PyList "string list" | PyTuple "string list" | PyStr string

datatype pyobj = Seq pyseq | PySet "string list" | PyNone | PyInt int

text \<open>\<open>for band in bands\<close>: a string iterates over its one-character substrings.\<close>

fun items :: "pyseq \<Rightarrow> string list" where
  "items (PyList xs) = xs"
| "items (PyTuple xs) = xs"
| "items (PyStr s) = map (\<lambda>c. [c]) s"

text \<open>\<open>xs.index(x)\<close> on a list or tuple: the first position, or nothing.\<close>

fun index_of :: "'a list \<Rightarrow> 'a \<Rightarrow> nat option" where
  "index_of [] x = None"
| "index_of (y # ys) x = (if y = x then Some 0 else map_option Suc (index_of ys x))"

text \<open>\<open>s.find(b)\<close> on a string: the first position where \<open>b\<close> occurs as a substring.\<close>

fun str_find :: "string \<Rightarrow> string \<Rightarrow> nat option" where
  "str_find [] b = (if b = [] then Some 0 else None)"
| "str_find (c # cs) b =
     (if take (length b) (c # cs) = b then Some 0 else map_option Suc (str_find cs b))"

text \<open>\<open>band in bands\<close> and \<open>bands.index(band)\<close>, which raises \<open>ValueError\<close>.\<close>

fun seq_find :: "pyseq \<Rightarrow> string \<Rightarrow> nat option" where
  "seq_find (PyList xs) b = index_of xs b"
| "seq_find (PyTuple xs) b = index_of xs b"
| "seq_find (PyStr s) b = str_find s b"

definition py_in :: "string \<Rightarrow> pyseq \<Rightarrow> bool" where
  "py_in b s = (seq_find s b \<noteq> None)"

definition py_index :: "pyseq \<Rightarrow> string \<Rightarrow> error + nat" where
  "py_index s b =
     (case seq_find s b of None \<Rightarrow> Inl (ValueError ''not in sequence'') | Some i \<Rightarrow> Inr i)"

text \<open>\<open>os.path.join(a, b)\<close> and \<open>os.path.exists\<close> over a file system given by the set
  of paths that exist.\<close>

type_synonym filesystem = "string \<Rightarrow> bool"

definition path_join :: "string \<Rightarrow> string \<Rightarrow> string" where
  "path_join a b =
     (if b \<noteq> [] \<and> hd b = CHR ''/'' then b
      else if a = [] \<or> last a = CHR ''/'' then a @ b
      else a @ ''/'' @ b)"

text \<open>
  What the module takes from outside: the set of importable optional libraries, the
  download helper (URL, directory, file name, optional MD5), which either raises or
  returns the file system after the download, and the contrast stretch of \<open>plot\<close>
  (\<open>percentile_normalization\<close>, scaled by 255 and stored as \<open>uint8\<close>), which maps the
  shape and the elements of an image to the elements of the displayed one.
\<close>

record environment =
  installed :: "string list"
  download_url :: "string \<Rightarrow> string \<Rightarrow> string \<Rightarrow> string option \<Rightarrow> filesystem \<Rightarrow> error + filesystem"
  normalize_uint8 ::
    "nat \<times> nat \<times> nat \<Rightarrow> (nat \<Rightarrow> nat \<Rightarrow> nat \<Rightarrow> int) \<Rightarrow> nat \<Rightarrow> nat \<Rightarrow> nat \<Rightarrow> 8 word"

text \<open>Modelled from the spec: \<open>lazy_import\<close> of the package's utilities, which is not
  among the sources; it raises the missing-optional-dependency error when the library
  is unavailable.\<close>

definition lazy_import :: "environment \<Rightarrow> string \<Rightarrow> error + unit" where
  "lazy_import env name =
     (if name \<in> set (installed env) then Inr () else Inl DependencyNotFoundError)"

section \<open>Class constants\<close>

definition url :: string where
  "url = ''https://hf.co/datasets/torchgeo/zuericrop/resolve/8ac0f416fbaab032d8670cc55f984b9f079e86b2/''"

definition md5s :: "string list" where
  "md5s = [''1635231df67f3d25f4f1e62c98e221a4'', ''5118398c7a5bbc246f5f6bb35d8d529b'']"

definition filenames :: "string list" where
  "filenames = [''ZueriCrop.hdf5'', ''labels.csv'']"

definition band_names :: "string list" where
  "band_names = [''NIR'', ''B03'', ''B02'', ''B04'', ''B05'', ''B06'', ''B07'', ''B11'', ''B12'']"

definition rgb_bands :: "string list" where
  "rgb_bands = [''B04'', ''B03'', ''B02'']"

section \<open>Band validation and band indices\<close>

definition invalid_band_message :: "string \<Rightarrow> string" where
  "invalid_band_message band = [CHR 0x27] @ band @ [CHR 0x27] @ '' is an invalid band name.''"

fun validate_loop :: "string list \<Rightarrow> error + unit" where
  "validate_loop [] = Inr ()"
| "validate_loop (band # rest) =
     (if band \<notin> set band_names then Inl (ValueError (invalid_band_message band))
      else validate_loop rest)"

definition validate_bands :: "pyobj \<Rightarrow> error + pyseq" where
  "validate_bands bands =
     (case bands of
        Seq s \<Rightarrow> bindE (validate_loop (items s)) (\<lambda>_. Inr s)
      | _ \<Rightarrow> Inl (AssertionError ([CHR 0x27] @ ''bands'' @ [CHR 0x27] @ '' must be a sequence'')))"

text \<open>\<open>[self.band_names.index(b) for b in bands]\<close>; \<open>tuple.index\<close> raises
  \<open>ValueError\<close> for a missing element.\<close>

fun band_index_list :: "string list \<Rightarrow> error + nat list" where
  "band_index_list [] = Inr []"
| "band_index_list (b # bs) =
     (case index_of band_names b of
        None \<Rightarrow> Inl (ValueError ''tuple.index(x): x not in tuple'')
      | Some i \<Rightarrow> bindE (band_index_list bs) (\<lambda>is. Inr (i # is)))"

section \<open>Tensors\<close>

text \<open>
  A tensor is its shape together with its element at each index; only indices inside
  the shape are ever read.  The arrays of the archive hold integers.  The tensors the
  module builds with \<open>torch.tensor\<close> from Python lists carry their element type and
  their shape explicitly, their elements in row-major order.
\<close>

record 'a tensor2 =
  shape2 :: "nat \<times> nat"
  at2 :: "nat \<Rightarrow> nat \<Rightarrow> 'a"

record 'a tensor3 =
  shape3 :: "nat \<times> nat \<times> nat"
  at3 :: "nat \<Rightarrow> nat \<Rightarrow> nat \<Rightarrow> 'a"

record 'a tensor4 =
  shape4 :: "nat \<times> nat \<times> nat \<times> nat"
  at4 :: "nat \<Rightarrow> nat \<Rightarrow> nat \<Rightarrow> nat \<Rightarrow> 'a"

datatype dtype = Float32 | Int64

record dtensor =
  dtype :: dtype
  dshape :: "nat list"
  dvals :: "int list"

text \<open>An array written as nested lists, with its shape, and back.\<close>

definition array3 :: "nat \<times> nat \<times> nat \<Rightarrow> 'a list list list \<Rightarrow> 'a tensor3" where
  "array3 s xs = \<lparr>shape3 = s, at3 = (\<lambda>i j k. xs ! i ! j ! k)\<rparr>"

definition array4 :: "nat \<times> nat \<times> nat \<times> nat \<Rightarrow> 'a list list list list \<Rightarrow> 'a tensor4" where
  "array4 s xs = \<lparr>shape4 = s, at4 = (\<lambda>i j k l. xs ! i ! j ! k ! l)\<rparr>"

definition tolist2 :: "'a tensor2 \<Rightarrow> 'a list list" where
  "tolist2 t = (case shape2 t of (h, w) \<Rightarrow> map (\<lambda>y. map (\<lambda>x. at2 t y x) [0..<w]) [0..<h])"

definition tolist3 :: "'a tensor3 \<Rightarrow> 'a list list list" where
  "tolist3 t =
     (case shape3 t of (c, h, w) \<Rightarrow>
        map (\<lambda>k. map (\<lambda>y. map (\<lambda>x. at3 t k y x) [0..<w]) [0..<h]) [0..<c])"

text \<open>\<open>torch.tensor(xs)\<close> for a list of integer scalars and for a list of rows of
  integer scalars.  The empty list gives the default floating-point type and shape
  \<open>(0,)\<close>.\<close>

definition torch_tensor_list :: "int list \<Rightarrow> dtensor" where
  "torch_tensor_list xs =
     (if xs = [] then \<lparr>dtype = Float32, dshape = [0], dvals = []\<rparr>
      else \<lparr>dtype = Int64, dshape = [length xs], dvals = xs\<rparr>)"

definition torch_tensor_rows :: "int list list \<Rightarrow> dtensor" where
  "torch_tensor_rows rows =
     (if rows = [] then \<lparr>dtype = Float32, dshape = [0], dvals = []\<rparr>
      else \<lparr>dtype = Int64, dshape = [length rows, length (hd rows)], dvals = concat rows\<rparr>)"

text \<open>Conversion of an integer to single precision: 24 significant bits, rounding
  to nearest, ties to even.  The result is again an integer.\<close>

definition float32_of_int :: "int \<Rightarrow> int" where
  "float32_of_int v =
     (let a = \<bar>v\<bar> in
      if a \<le> 2 ^ 24 then v
      else let u = 2 ^ (floorlog 2 (nat a) - 24); q = a div u; r = a mod u;
               q' = (if 2 * r > u \<or> (2 * r = u \<and> odd q) then q + 1 else q)
           in sgn v * q' * u)"

text \<open>\<open>t.to(torch.float)\<close> and \<open>t.to(torch.long)\<close> (also \<open>t.long()\<close>); every value
  held here is integral, so the conversion to \<open>long\<close> keeps it.\<close>

fun to_dtype :: "dtype \<Rightarrow> dtensor \<Rightarrow> dtensor" where
  "to_dtype Float32 t = t\<lparr>dtype := Float32, dvals := map float32_of_int (dvals t)\<rparr>"
| "to_dtype Int64 t = t\<lparr>dtype := Int64\<rparr>"

text \<open>\<open>masks.to(torch.uint8)\<close>.\<close>

definition to_uint8 :: "bool tensor3 \<Rightarrow> 8 word tensor3" where
  "to_uint8 t = \<lparr>shape3 = shape3 t, at3 = (\<lambda>k y x. if at3 t k y x then 1 else 0)\<rparr>"

text \<open>\<open>permute((2, 0, 1))\<close>, \<open>permute((0, 3, 1, 2))\<close> and \<open>permute(1, 2, 0)\<close>.\<close>

definition permute_201 :: "'a tensor3 \<Rightarrow> 'a tensor3" where
  "permute_201 t =
     (case shape3 t of (h, w, c) \<Rightarrow> \<lparr>shape3 = (c, h, w), at3 = (\<lambda>k y x. at3 t y x k)\<rparr>)"

definition permute_0312 :: "'a tensor4 \<Rightarrow> 'a tensor4" where
  "permute_0312 t =
     (case shape4 t of (n, h, w, c) \<Rightarrow>
        \<lparr>shape4 = (n, c, h, w), at4 = (\<lambda>a k y x. at4 t a y x k)\<rparr>)"

definition permute_120 :: "'a tensor3 \<Rightarrow> 'a tensor3" where
  "permute_120 t =
     (case shape3 t of (c, h, w) \<Rightarrow> \<lparr>shape3 = (h, w, c), at3 = (\<lambda>y x k. at3 t k y x)\<rparr>)"

text \<open>\<open>torch.index_select(tensor, dim=1, index=idx)\<close>: the index must be a
  one-dimensional integer tensor with every entry inside dimension 1; it raises
  \<open>RuntimeError\<close> otherwise.\<close>

definition index_select1 :: "'a tensor4 \<Rightarrow> dtensor \<Rightarrow> error + 'a tensor4" where
  "index_select1 t idx =
     (case shape4 t of (n, c, h, w) \<Rightarrow>
        if dtype idx \<noteq> Int64 \<or> length (dshape idx) \<noteq> 1 then Inl RuntimeError
        else if \<exists>i \<in> set (dvals idx). i < 0 \<or> int c \<le> i then Inl RuntimeError
        else Inr \<lparr>shape4 = (n, length (dvals idx), h, w),
                  at4 = (\<lambda>a j y x. at4 t a (nat (dvals idx ! j)) y x)\<rparr>)"

text \<open>The elements of a tensor in row-major order, and \<open>torch.unique\<close>, which returns
  the distinct elements sorted.\<close>

definition flatten3 :: "'a tensor3 \<Rightarrow> 'a list" where
  "flatten3 t =
     (case shape3 t of (c, h, w) \<Rightarrow> [at3 t k y x. k \<leftarrow> [0..<c], y \<leftarrow> [0..<h], x \<leftarrow> [0..<w]])"

definition torch_unique :: "int list \<Rightarrow> int list" where
  "torch_unique xs = sort (remdups xs)"

text \<open>
  \<open>instance_tensor == instance_ids[:, None, None]\<close>: a tensor of shape \<open>(k, h, w)\<close>
  compared with one of shape \<open>(n, 1, 1)\<close>.  Broadcasting needs \<open>k = n\<close>, \<open>k = 1\<close> or
  \<open>n = 1\<close>, and raises otherwise.
\<close>

definition eq_broadcast :: "int tensor3 \<Rightarrow> int list \<Rightarrow> error + bool tensor3" where
  "eq_broadcast t ids =
     (case shape3 t of (k, h, w) \<Rightarrow>
        let n = length ids in
        if k = n \<or> k = 1 \<or> n = 1 then
          Inr \<lparr>shape3 = (if k = 1 then n else k, h, w),
               at3 = (\<lambda>i y x. at3 t (if k = 1 then 0 else i) y x = ids ! (if n = 1 then 0 else i))\<rparr>
        else Inl RuntimeError)"

text \<open>\<open>for mask in masks\<close>: the planes along dimension 0.\<close>

definition planes :: "'a tensor3 \<Rightarrow> 'a tensor2 list" where
  "planes t =
     (case shape3 t of (m, h, w) \<Rightarrow> map (\<lambda>i. \<lparr>shape2 = (h, w), at2 = at3 t i\<rparr>) [0..<m])"

text \<open>\<open>mask[None, :, :]\<close>.\<close>

definition unsqueeze0 :: "'a tensor2 \<Rightarrow> 'a tensor3" where
  "unsqueeze0 m = (case shape2 m of (h, w) \<Rightarrow> \<lparr>shape3 = (1, h, w), at3 = (\<lambda>k. at2 m)\<rparr>)"

text \<open>
  \<open>t[m]\<close> for a boolean tensor \<open>m\<close>: the mask is not broadcast; PyTorch raises
  \<open>IndexError\<close> ("The shape of the mask ... does not match the shape of the indexed
  tensor") unless the two shapes agree, and returns the selected elements in
  row-major order when they do.
\<close>

definition masked_select :: "'a tensor3 \<Rightarrow> bool tensor3 \<Rightarrow> error + 'a list" where
  "masked_select t m =
     (if shape3 m \<noteq> shape3 t then Inl IndexError
      else case shape3 t of (c, h, w) \<Rightarrow>
        Inr [at3 t k y x. k \<leftarrow> [0..<c], y \<leftarrow> [0..<h], x \<leftarrow> [0..<w], at3 m k y x])"

text \<open>\<open>xs[0]\<close> on a one-dimensional tensor.\<close>

definition first_elem :: "'a list \<Rightarrow> error + 'a" where
  "first_elem xs = (case xs of [] \<Rightarrow> Inl IndexError | x # _ \<Rightarrow> Inr x)"

text \<open>\<open>torch.where(mask)\<close>: the row and column indices of the true elements, in
  row-major order; \<open>torch.min\<close> and \<open>torch.max\<close> raise on an empty tensor.\<close>

definition torch_where :: "bool tensor2 \<Rightarrow> nat list \<times> nat list" where
  "torch_where m =
     (case shape2 m of (h, w) \<Rightarrow>
        let pos = [(y, x). y \<leftarrow> [0..<h], x \<leftarrow> [0..<w], at2 m y x]
        in (map fst pos, map snd pos))"

definition torch_min :: "nat list \<Rightarrow> error + nat" where
  "torch_min xs = (if xs = [] then Inl RuntimeError else Inr (Min (set xs)))"

definition torch_max :: "nat list \<Rightarrow> error + nat" where
  "torch_max xs = (if xs = [] then Inl RuntimeError else Inr (Max (set xs)))"

text \<open>\<open>torch.argmax(t, dim=0)\<close>: per pixel the first index of the largest value; it
  raises when dimension 0 is empty.\<close>

definition argmax_list :: "'a::linorder list \<Rightarrow> nat" where
  "argmax_list xs = hd [i. i \<leftarrow> [0..<length xs], xs ! i = Max (set xs)]"

definition argmax0 :: "'a::linorder tensor3 \<Rightarrow> error + nat tensor2" where
  "argmax0 t =
     (case shape3 t of (c, h, w) \<Rightarrow>
        if c = 0 then Inl IndexError
        else Inr \<lparr>shape2 = (h, w),
                  at2 = (\<lambda>y x. argmax_list (map (\<lambda>k. at3 t k y x) [0..<c]))\<rparr>)"

text \<open>\<open>t[time_step, idx]\<close> for an integer and a list of integers: the integer counts
  from the end when negative.\<close>

definition index_time_bands :: "'a tensor4 \<Rightarrow> int \<Rightarrow> nat list \<Rightarrow> error + 'a tensor3" where
  "index_time_bands t time_step idx =
     (case shape4 t of (n, c, h, w) \<Rightarrow>
        if time_step < - int n \<or> int n \<le> time_step then Inl IndexError
        else if \<exists>i \<in> set idx. c \<le> i then Inl IndexError
        else Inr \<lparr>shape3 = (length idx, h, w),
                  at3 = (\<lambda>j y x. at4 t (nat (if time_step < 0 then time_step + int n else time_step))
                                      (idx ! j) y x)\<rparr>)"

section \<open>The archive\<close>

text \<open>
  The HDF5 file holds three arrays, indexed along their first dimension:
  \<open>data\<close> (per series \<open>T \<times> H \<times> W \<times> C\<close>), \<open>gt\<close> (\<open>H \<times> W \<times> Kc\<close>) and \<open>gt_instance\<close>
  (\<open>H \<times> W \<times> Ki\<close>).  \<open>h5py.File(path, 'r')\<close> raises when there is no archive at the
  path; an integer index counts from the end when negative and raises \<open>IndexError\<close>
  out of range.
\<close>

record archive =
  h5_data :: "int tensor4 list"
  h5_gt :: "int tensor3 list"
  h5_gt_instance :: "int tensor3 list"

type_synonym h5store = "string \<Rightarrow> archive option"

definition h5py_File :: "h5store \<Rightarrow> string \<Rightarrow> error + archive" where
  "h5py_File store path = (case store path of None \<Rightarrow> Inl OSError | Some f \<Rightarrow> Inr f)"

definition h5_getitem :: "'a list \<Rightarrow> int \<Rightarrow> error + 'a" where
  "h5_getitem xs i =
     (if 0 \<le> i \<and> i < int (length xs) then Inr (xs ! nat i)
      else if - int (length xs) \<le> i \<and> i < 0 then Inr (xs ! nat (i + int (length xs)))
      else Inl IndexError)"

definition import_h5py :: "environment \<Rightarrow> error + unit" where
  "import_h5py env =
     (if ''h5py'' \<in> set (installed env) then Inr () else Inl ModuleNotFoundError)"

section \<open>The dataset\<close>

record sample =
  s_image :: "int tensor4"
  s_mask :: "8 word tensor3"
  s_bbox_xyxy :: dtensor
  s_label :: dtensor
  s_prediction :: "int tensor3 option"

record zueri_crop =
  ds_root :: string
  ds_bands :: pyseq
  ds_band_indices :: dtensor
  ds_transforms :: "(sample \<Rightarrow> error + sample) option"
  ds_download :: bool
  ds_checksum :: bool
  ds_filepath :: string

text \<open>\<open>_download\<close>: each of the two files that is absent is fetched from the fixed URL,
  with its MD5 only when \<open>checksum\<close> is set.\<close>

fun download_loop ::
  "environment \<Rightarrow> zueri_crop \<Rightarrow> (string \<times> string) list \<Rightarrow> filesystem \<Rightarrow> error + filesystem" where
  "download_loop env self [] fs = Inr fs"
| "download_loop env self ((filename, md5) # rest) fs =
     (let filepath = path_join (ds_root self) filename in
      if \<not> fs filepath then
        bindE (download_url env (url @ filename) (ds_root self) filename
                 (if ds_checksum self then Some md5 else None) fs)
              (download_loop env self rest)
      else download_loop env self rest fs)"

definition download :: "environment \<Rightarrow> zueri_crop \<Rightarrow> filesystem \<Rightarrow> error + filesystem" where
  "download env self fs = download_loop env self (zip filenames md5s) fs"

text \<open>\<open>_verify\<close>: return when both files exist, raise when download is off, download
  otherwise.\<close>

definition verify :: "environment \<Rightarrow> zueri_crop \<Rightarrow> filesystem \<Rightarrow> error + filesystem" where
  "verify env self fs =
     (let exists = map (\<lambda>filename. fs (path_join (ds_root self) filename)) filenames in
      if list_all (\<lambda>b. b) exists then Inr fs
      else if \<not> ds_download self then Inl DatasetNotFoundError
      else download env self fs)"

text \<open>\<open>__init__\<close>: import check, band validation, band indices, attributes, file
  check.  It returns the dataset and the file system it leaves behind.\<close>

definition init ::
  "environment \<Rightarrow> filesystem \<Rightarrow> string \<Rightarrow> pyobj \<Rightarrow> (sample \<Rightarrow> error + sample) option \<Rightarrow>
     bool \<Rightarrow> bool \<Rightarrow> error + zueri_crop \<times> filesystem" where
  "init env fs rootdir bands transforms dl checksum =
     bindE (lazy_import env ''h5py'') (\<lambda>_.
     bindE (validate_bands bands) (\<lambda>seq.
     bindE (band_index_list (items seq)) (\<lambda>idx.
       let self = \<lparr>ds_root = rootdir, ds_bands = seq,
                   ds_band_indices = to_dtype Int64 (torch_tensor_list (map int idx)),
                   ds_transforms = transforms, ds_download = dl, ds_checksum = checksum,
                   ds_filepath = path_join rootdir ''ZueriCrop.hdf5''\<rparr>
       in bindE (verify env self fs) (\<lambda>fs'. Inr (self, fs')))))"

text \<open>\<open>__len__\<close> and \<open>_load_image\<close>.\<close>

definition len :: "environment \<Rightarrow> h5store \<Rightarrow> zueri_crop \<Rightarrow> error + nat" where
  "len env store self =
     bindE (lazy_import env ''h5py'') (\<lambda>_.
     bindE (h5py_File store (ds_filepath self)) (\<lambda>f. Inr (length (h5_data f))))"

definition load_image :: "environment \<Rightarrow> h5store \<Rightarrow> zueri_crop \<Rightarrow> int \<Rightarrow> error + int tensor4" where
  "load_image env store self index =
     bindE (lazy_import env ''h5py'') (\<lambda>_.
     bindE (h5py_File store (ds_filepath self)) (\<lambda>f.
     bindE (h5_getitem (h5_data f) index) (\<lambda>array.
       index_select1 (permute_0312 array) (ds_band_indices self))))"

text \<open>The two loops of \<open>_load_target\<close> over the instance masks: the label of each mask,
  then its box \<open>[xmin, ymin, xmax, ymax]\<close>.\<close>

fun labels_loop :: "int tensor3 \<Rightarrow> bool tensor2 list \<Rightarrow> error + int list" where
  "labels_loop mask_tensor [] = Inr []"
| "labels_loop mask_tensor (m # rest) =
     bindE (masked_select mask_tensor (unsqueeze0 m)) (\<lambda>label.
     bindE (first_elem (torch_unique label)) (\<lambda>label.
     bindE (labels_loop mask_tensor rest) (\<lambda>labels_list. Inr (label # labels_list))))"

fun boxes_loop :: "bool tensor2 list \<Rightarrow> error + int list list" where
  "boxes_loop [] = Inr []"
| "boxes_loop (m # rest) =
     (let pos = torch_where m in
      bindE (torch_min (snd pos)) (\<lambda>xmin.
      bindE (torch_max (snd pos)) (\<lambda>xmax.
      bindE (torch_min (fst pos)) (\<lambda>ymin.
      bindE (torch_max (fst pos)) (\<lambda>ymax.
      bindE (boxes_loop rest) (\<lambda>boxes_list.
        Inr ([int xmin, int ymin, int xmax, int ymax] # boxes_list)))))))"

text \<open>The part of \<open>_load_target\<close> after the archive has been read.\<close>

definition instance_ids_of :: "int tensor3 \<Rightarrow> int list" where
  "instance_ids_of instance_tensor =
     filter (\<lambda>v. v \<noteq> 0) (torch_unique (flatten3 instance_tensor))"

definition target_of ::
  "int tensor3 \<Rightarrow> int tensor3 \<Rightarrow> error + 8 word tensor3 \<times> dtensor \<times> dtensor" where
  "target_of mask_array instance_array =
     (let mask_tensor = permute_201 mask_array;
          instance_tensor = permute_201 instance_array;
          instance_ids = instance_ids_of instance_tensor
      in bindE (eq_broadcast instance_tensor instance_ids) (\<lambda>masks.
         bindE (labels_loop mask_tensor (planes masks)) (\<lambda>labels_list.
         bindE (boxes_loop (planes masks)) (\<lambda>boxes_list.
           Inr (to_uint8 masks,
                to_dtype Float32 (torch_tensor_rows boxes_list),
                to_dtype Int64 (torch_tensor_list labels_list))))))"

text \<open>\<open>_load_target\<close> and \<open>__getitem__\<close>.\<close>

definition load_target ::
  "environment \<Rightarrow> h5store \<Rightarrow> zueri_crop \<Rightarrow> int \<Rightarrow> error + 8 word tensor3 \<times> dtensor \<times> dtensor" where
  "load_target env store self index =
     bindE (import_h5py env) (\<lambda>_.
     bindE (h5py_File store (ds_filepath self)) (\<lambda>f.
     bindE (h5_getitem (h5_gt f) index) (\<lambda>mask_array.
     bindE (h5_getitem (h5_gt_instance f) index) (\<lambda>instance_array.
       target_of mask_array instance_array))))"

definition getitem :: "environment \<Rightarrow> h5store \<Rightarrow> zueri_crop \<Rightarrow> int \<Rightarrow> error + sample" where
  "getitem env store self index =
     bindE (load_image env store self index) (\<lambda>image.
     bindE (load_target env store self index) (\<lambda>(masks, boxes, labels).
       let sample = \<lparr>s_image = image, s_mask = masks, s_bbox_xyxy = boxes, s_label = labels,
                     s_prediction = None\<rparr>
       in case ds_transforms self of None \<Rightarrow> Inr sample | Some f \<Rightarrow> f sample))"

section \<open>Plotting\<close>

text \<open>A figure is its row of panels; a panel is what \<open>imshow\<close> was given, whether its
  axis is switched off, and its title.\<close>

datatype shown = RGB "8 word tensor3" | Indexed "nat tensor2"

record panel =
  p_shown :: shown
  p_axis_off :: bool
  p_title :: "string option"

record figure =
  fig_ncols :: nat
  fig_figsize :: "nat \<times> nat"
  fig_axs :: "panel list"
  fig_suptitle :: "string option"

text \<open>\<open>plot\<close>: the positions of the RGB bands in the selected bands, the image at the
  time step, the mask and the prediction collapsed by \<open>argmax\<close>, then the panels.\<close>

fun rgb_loop :: "pyseq \<Rightarrow> string list \<Rightarrow> error + nat list" where
  "rgb_loop bands [] = Inr []"
| "rgb_loop bands (band # rest) =
     (if py_in band bands then
        bindE (py_index bands band) (\<lambda>i.
        bindE (rgb_loop bands rest) (\<lambda>rgb_indices. Inr (i # rgb_indices)))
      else Inl RGBBandsMissingError)"

definition plot ::
  "environment \<Rightarrow> zueri_crop \<Rightarrow> sample \<Rightarrow> int \<Rightarrow> bool \<Rightarrow> string option \<Rightarrow> error + figure" where
  "plot env self sample time_step show_titles suptitle =
     bindE (rgb_loop (ds_bands self) rgb_bands) (\<lambda>rgb_indices.
     bindE (index_time_bands (s_image sample) time_step rgb_indices) (\<lambda>image.
       let image = \<lparr>shape3 = shape3 image, at3 = normalize_uint8 env (shape3 image) (at3 image)\<rparr> in
     bindE (argmax0 (s_mask sample)) (\<lambda>m.
     bindE (case s_prediction sample of
              None \<Rightarrow> Inr (2, [])
            | Some p \<Rightarrow> bindE (argmax0 p) (\<lambda>preds. Inr (3, [preds]))) (\<lambda>(ncols, preds).
       Inr \<lparr>fig_ncols = ncols, fig_figsize = (10, 10 * ncols),
            fig_axs =
              [\<lparr>p_shown = RGB (permute_120 image), p_axis_off = True,
                p_title = (if show_titles then Some ''Image'' else None)\<rparr>,
               \<lparr>p_shown = Indexed m, p_axis_off = True,
                p_title = (if show_titles then Some ''Mask'' else None)\<rparr>]
              @ map (\<lambda>p. \<lparr>p_shown = Indexed p, p_axis_off = True,
                           p_title = (if show_titles then Some ''Prediction'' else None)\<rparr>) preds,
            fig_suptitle = suptitle\<rparr>))))"

text \<open>\<open>plot\<close> applied to the sample \<open>__getitem__\<close> returns for an index, as its
  docstring describes its argument.\<close>

definition plot_item ::
  "environment \<Rightarrow> h5store \<Rightarrow> zueri_crop \<Rightarrow> int \<Rightarrow> int \<Rightarrow> bool \<Rightarrow> string option \<Rightarrow>
     error + figure" where
  "plot_item env store self index time_step show_titles suptitle =
     bindE (getitem env store self index)
       (\<lambda>sample. plot env self sample time_step show_titles suptitle)"

section \<open>Example inputs\<close>

text \<open>Concrete environments, file systems and archives at which the properties below
  are evaluated.\<close>

definition ex_env :: environment where
  "ex_env = \<lparr>installed = [''h5py''], download_url = (\<lambda>u r n m fs. Inl DownloadError),
             normalize_uint8 = (\<lambda>s f k y x. 0)\<rparr>"

definition ex_fs :: filesystem where
  "ex_fs p = (p = ''data/ZueriCrop.hdf5'' \<or> p = ''data/labels.csv'')"

definition no_files :: filesystem where
  "no_files p = False"

definition ex_data :: "int tensor4" where
  "ex_data = \<lparr>shape4 = (2, 1, 5, 9), at4 = (\<lambda>a y x k. int (1000 * a + 10 * x + k))\<rparr>"

definition ex_gt :: "int tensor3" where
  "ex_gt = array3 (1, 5, 1) [[[7], [7], [3], [4], [9]]]"

definition ex_instance :: "int tensor3" where
  "ex_instance = array3 (1, 5, 1) [[[0], [0], [2], [2], [5]]]"

definition ex_archive :: archive where
  "ex_archive = \<lparr>h5_data = [ex_data], h5_gt = [ex_gt], h5_gt_instance = [ex_instance]\<rparr>"

definition ex_store :: h5store where
  "ex_store p = (if p = ''data/ZueriCrop.hdf5'' then Some ex_archive else None)"

definition ex_ds :: zueri_crop where
  "ex_ds = \<lparr>ds_root = ''data'', ds_bands = PyList [''B04'', ''B03'', ''B02''],
            ds_band_indices = \<lparr>dtype = Int64, dshape = [3], dvals = [3, 1, 2]\<rparr>,
            ds_transforms = None, ds_download = False, ds_checksum = False,
            ds_filepath = ''data/ZueriCrop.hdf5''\<rparr>"

definition ex_ds_nir :: zueri_crop where
  "ex_ds_nir = \<lparr>ds_root = ''data'', ds_bands = PyTuple [''NIR'', ''B04'', ''B03''],
            ds_band_indices = \<lparr>dtype = Int64, dshape = [3], dvals = [0, 3, 1]\<rparr>,
            ds_transforms = None, ds_download = False, ds_checksum = False,
            ds_filepath = ''data/ZueriCrop.hdf5''\<rparr>"

definition ex_sample :: sample where
  "ex_sample = \<lparr>s_image = \<lparr>shape4 = (2, 3, 1, 5), at4 = (\<lambda>a k y x. int (1000 * a + 10 * x + k))\<rparr>,
               s_mask = array3 (2, 1, 5) [[[0, 0, 1, 1, 0]], [[0, 0, 0, 0, 1]]],
               s_bbox_xyxy = \<lparr>dtype = Float32, dshape = [2, 4], dvals = [2, 0, 3, 0, 4, 0, 4, 0]\<rparr>,
               s_label = \<lparr>dtype = Int64, dshape = [2], dvals = [3, 9]\<rparr>,
               s_prediction = None\<rparr>"

definition ex_prediction :: "int tensor3" where
  "ex_prediction = array3 (2, 1, 5) [[[0, 0, 1, 0, 0]], [[0, 0, 0, 1, 1]]]"

text \<open>What a call returned, seen through a projection; nothing when it raised.\<close>

definition returned :: "('a \<Rightarrow> 'b) \<Rightarrow> error + 'a \<Rightarrow> 'b option" where
  "returned g r = (case r of Inl e \<Rightarrow> None | Inr v \<Rightarrow> Some (g v))"

text \<open>The exception a call raised; nothing when it returned.\<close>

definition raised :: "error + 'a \<Rightarrow> error option" where
  "raised r = (case r of Inl e \<Rightarrow> Some e | Inr v \<Rightarrow> None)"

definition ex_instance_two :: "int tensor3" where
  "ex_instance_two = array3 (1, 5, 2) [[[0, 0], [0, 0], [2, 2], [2, 2], [2, 2]]]"

definition ex_store_two :: h5store where
  "ex_store_two p =
     (if p = ''data/ZueriCrop.hdf5''
      then Some \<lparr>h5_data = [ex_data], h5_gt = [ex_gt], h5_gt_instance = [ex_instance_two]\<rparr>
      else None)"

definition ex_background :: "int tensor3" where
  "ex_background = array3 (1, 5, 1) [[[0], [0], [0], [0], [0]]]"

definition ex_store_background :: h5store where
  "ex_store_background p =
     (if p = ''data/ZueriCrop.hdf5''
      then Some \<lparr>h5_data = [ex_data], h5_gt = [ex_gt], h5_gt_instance = [ex_background]\<rparr>
      else None)"

section \<open>Properties of construction\<close>

lemma bindE_Inr [simp]: "bindE (Inr v) f = f v"
  by (simp add: bindE_def)

lemma bindE_Inl [simp]: "bindE (Inl e) f = Inl e"
  by (simp add: bindE_def)

lemma bindE_eq_Inr: "bindE m f = Inr r \<longleftrightarrow> (\<exists>v. m = Inr v \<and> f v = Inr r)"
  by (cases m) simp_all

lemma validate_loop_find:
  "validate_loop xs =
     (case find (\<lambda>b. b \<notin> set band_names) xs of
        None \<Rightarrow> Inr () | Some b \<Rightarrow> Inl (ValueError (invalid_band_message b)))"
  by (induction xs) simp_all

lemma validate_loop_ok: "validate_loop xs = Inr () \<longleftrightarrow> set xs \<subseteq> set band_names"
  by (induction xs) simp_all

lemma index_of_Some: "x \<in> set xs \<Longrightarrow> \<exists>i. index_of xs x = Some i \<and> i < length xs \<and> xs ! i = x"
  by (induction xs) auto

lemma index_of_None: "x \<notin> set xs \<Longrightarrow> index_of xs x = None"
  by (induction xs) auto

lemma index_of_first: "index_of xs x = Some i \<Longrightarrow> i < length xs \<and> xs ! i = x \<and> (\<forall>j<i. xs ! j \<noteq> x)"
proof (induction xs arbitrary: i)
  case Nil
  then show ?case by simp
next
  case (Cons y ys)
  show ?case
  proof (cases "y = x")
    case True
    with Cons.prems show ?thesis by simp
  next
    case False
    with Cons.prems obtain k where k: "index_of ys x = Some k" "i = Suc k" by auto
    from Cons.IH[OF k(1)] False k(2) show ?thesis
      by (auto simp: nth_Cons split: nat.splits)
  qed
qed

lemma band_index_list_valid:
  "set bs \<subseteq> set band_names \<Longrightarrow>
   band_index_list bs = Inr (map (\<lambda>b. the (index_of band_names b)) bs)"
proof (induction bs)
  case Nil
  then show ?case by simp
next
  case (Cons b bs)
  then obtain i where "index_of band_names b = Some i"
    using index_of_Some[of b band_names] by auto
  with Cons show ?case by simp
qed

lemma band_index_list_error:
  "band_index_list bs = Inl e \<Longrightarrow> e \<noteq> DatasetNotFoundError"
  by (induction bs arbitrary: e) (auto simp: bindE_def split: option.splits sum.splits)

lemma verify_present:
  "fs (path_join (ds_root self) ''ZueriCrop.hdf5'') \<Longrightarrow> fs (path_join (ds_root self) ''labels.csv'')
   \<Longrightarrow> verify env self fs = Inr fs"
  by (simp add: verify_def filenames_def)

lemma verify_missing:
  "\<not> (fs (path_join (ds_root self) ''ZueriCrop.hdf5'') \<and> fs (path_join (ds_root self) ''labels.csv''))
   \<Longrightarrow> \<not> ds_download self \<Longrightarrow> verify env self fs = Inl DatasetNotFoundError"
  by (auto simp add: verify_def filenames_def)

lemma validate_bands_Seq:
  "set (items s) \<subseteq> set band_names \<Longrightarrow> validate_bands (Seq s) = Inr s"
  by (simp add: validate_bands_def validate_loop_ok[THEN iffD2])

lemma init_valid:
  assumes "''h5py'' \<in> set (installed env)" and "set (items s) \<subseteq> set band_names"
  shows "init env fs rootdir (Seq s) transforms dl checksum =
     (let self = \<lparr>ds_root = rootdir, ds_bands = s,
                   ds_band_indices = to_dtype Int64 (torch_tensor_list
                      (map int (map (\<lambda>b. the (index_of band_names b)) (items s)))),
                   ds_transforms = transforms, ds_download = dl, ds_checksum = checksum,
                   ds_filepath = path_join rootdir ''ZueriCrop.hdf5''\<rparr>
      in bindE (verify env self fs) (\<lambda>fs'. Inr (self, fs')))"
  using assms by (simp add: init_def lazy_import_def validate_bands_Seq band_index_list_valid)

text \<open>
  Claim C6.  With the archive-reading library installed, construction with a band
  sequence that contains a name outside the nine fixed band names fails with
  \<open>ValueError\<close>, and the message quotes the offending band: the first entry of the
  sequence that is not a band name.
\<close>

theorem invalid_band_rejected:
  assumes "''h5py'' \<in> set (installed env)"
    and "\<exists>b \<in> set (items s). b \<notin> set band_names"
  shows "\<exists>b. find (\<lambda>b. b \<notin> set band_names) (items s) = Some b \<and> b \<in> set (items s) \<and>
             b \<notin> set band_names \<and>
             init env fs rootdir (Seq s) transforms dl checksum =
               Inl (ValueError ([CHR 0x27] @ b @ [CHR 0x27] @ '' is an invalid band name.''))"
proof -
  from assms(2) obtain b where b: "find (\<lambda>b. b \<notin> set band_names) (items s) = Some b"
    by (cases "find (\<lambda>b. b \<notin> set band_names) (items s)") (auto simp: find_None_iff)
  then have mem: "b \<in> set (items s)" "b \<notin> set band_names"
    by (auto simp: find_Some_iff)
  have "validate_loop (items s) = Inl (ValueError (invalid_band_message b))"
    by (simp add: validate_loop_find b)
  then have "init env fs rootdir (Seq s) transforms dl checksum =
      Inl (ValueError (invalid_band_message b))"
    using assms(1) by (simp add: init_def lazy_import_def validate_bands_def)
  with b mem show ?thesis by (simp add: invalid_band_message_def)
qed

theorem invalid_band_rejected_witness:
  "init ex_env ex_fs ''data'' (Seq (PyList [''B04'', ''B08'', ''B99''])) None False False =
     Inl (ValueError ([CHR 0x27] @ ''B08'' @ [CHR 0x27] @ '' is an invalid band name.''))"
  using invalid_band_rejected[of ex_env "PyList [''B04'', ''B08'', ''B99'']" ex_fs "''data''" None False False]
  by (simp add: ex_env_def band_names_def)

text \<open>
  Claim C5 as stated fails: a set of band names is not a sequence, and construction
  stops at the assertion of \<open>_validate_bands\<close> with \<open>AssertionError\<close>, which is not
  a \<open>TypeError\<close>.
\<close>

theorem non_sequence_counterexample:
  "init ex_env ex_fs ''data'' (PySet [''NIR'']) None False False =
     Inl (AssertionError ([CHR 0x27] @ ''bands'' @ [CHR 0x27] @ '' must be a sequence'')) \<and>
   \<not> is_TypeError (AssertionError ([CHR 0x27] @ ''bands'' @ [CHR 0x27] @ '' must be a sequence''))"
  by (simp add: init_def lazy_import_def ex_env_def validate_bands_def)

text \<open>
  Claim C5, amended.  With the archive-reading library installed, construction with a
  band argument that is not a sequence fails with \<open>AssertionError\<close> and the message
  \<open>'bands' must be a sequence\<close>, as the docstring of \<open>_validate_bands\<close> announces.
\<close>

theorem non_sequence_assertion:
  assumes "''h5py'' \<in> set (installed env)" and "\<forall>s. bands \<noteq> Seq s"
  shows "init env fs rootdir bands transforms dl checksum =
     Inl (AssertionError ([CHR 0x27] @ ''bands'' @ [CHR 0x27] @ '' must be a sequence''))"
  using assms by (cases bands) (simp_all add: init_def lazy_import_def validate_bands_def)

theorem non_sequence_assertion_witness:
  "init ex_env no_files ''data'' PyNone None True True =
     Inl (AssertionError ([CHR 0x27] @ ''bands'' @ [CHR 0x27] @ '' must be a sequence''))"
  using non_sequence_assertion[of ex_env PyNone no_files "''data''" None True True]
  by (simp add: ex_env_def)

text \<open>
  Claim C8.  With the library installed and a valid band sequence, construction fails
  with \<open>DatasetNotFoundError\<close> when download is disabled and the data archive or the
  label table is absent from the root directory.  When both files are present,
  construction never raises this error, whatever the other arguments, and it returns
  the dataset when the library is installed and the bands are valid.
\<close>

theorem dataset_not_found:
  "(''h5py'' \<in> set (installed env) \<and> set (items s) \<subseteq> set band_names \<and> \<not> dl \<and>
     \<not> (fs (path_join rootdir ''ZueriCrop.hdf5'') \<and> fs (path_join rootdir ''labels.csv''))
     \<longrightarrow> init env fs rootdir (Seq s) transforms dl checksum = Inl DatasetNotFoundError) \<and>
   (fs (path_join rootdir ''ZueriCrop.hdf5'') \<and> fs (path_join rootdir ''labels.csv'')
     \<longrightarrow> init env fs rootdir bands transforms dl checksum \<noteq> Inl DatasetNotFoundError \<and>
         (''h5py'' \<in> set (installed env) \<and> set (items s) \<subseteq> set band_names
            \<longrightarrow> (\<exists>self. init env fs rootdir (Seq s) transforms dl checksum = Inr (self, fs))))"
proof (intro conjI impI)
  assume a: "''h5py'' \<in> set (installed env) \<and> set (items s) \<subseteq> set band_names \<and> \<not> dl \<and>
     \<not> (fs (path_join rootdir ''ZueriCrop.hdf5'') \<and> fs (path_join rootdir ''labels.csv''))"
  then show "init env fs rootdir (Seq s) transforms dl checksum = Inl DatasetNotFoundError"
    by (simp add: init_valid verify_missing)
next
  assume p: "fs (path_join rootdir ''ZueriCrop.hdf5'') \<and> fs (path_join rootdir ''labels.csv'')"
  show "init env fs rootdir bands transforms dl checksum \<noteq> Inl DatasetNotFoundError"
    using p
    by (auto simp: init_def bindE_def lazy_import_def validate_bands_def verify_present Let_def
             validate_loop_find
             dest: band_index_list_error
             split: sum.splits pyobj.splits option.splits)
next
  assume p: "fs (path_join rootdir ''ZueriCrop.hdf5'') \<and> fs (path_join rootdir ''labels.csv'')"
    and v: "''h5py'' \<in> set (installed env) \<and> set (items s) \<subseteq> set band_names"
  then show "\<exists>self. init env fs rootdir (Seq s) transforms dl checksum = Inr (self, fs)"
    by (simp add: init_valid verify_present)
qed

theorem dataset_not_found_witness:
  "init ex_env no_files ''data'' (Seq (PyTuple [''B04'', ''NIR''])) None False False =
     Inl DatasetNotFoundError \<and>
   init ex_env ex_fs ''data'' (Seq (PyTuple [''B04'', ''NIR''])) None False False \<noteq>
     Inl DatasetNotFoundError \<and>
   (\<exists>self. init ex_env ex_fs ''data'' (Seq (PyTuple [''B04'', ''NIR''])) None False False =
     Inr (self, ex_fs))"
  using dataset_not_found[of ex_env "PyTuple [''B04'', ''NIR'']" False no_files "''data''" None False
      "Seq (PyTuple [''B04'', ''NIR''])"]
    dataset_not_found[of ex_env "PyTuple [''B04'', ''NIR'']" False ex_fs "''data''" None False
      "Seq (PyTuple [''B04'', ''NIR''])"]
  by (simp add: ex_env_def no_files_def ex_fs_def band_names_def path_join_def)

section \<open>Band indices and image channels\<close>

lemma ex_ds_init:
  "init ex_env ex_fs ''data'' (Seq (PyList [''B04'', ''B03'', ''B02''])) None False False = Inr (ex_ds, ex_fs)"
  by (simp add: init_def lazy_import_def ex_env_def validate_bands_def band_names_def
      torch_tensor_list_def verify_def filenames_def path_join_def ex_fs_def ex_ds_def)

lemma getitem_image:
  "ds_transforms self = None \<Longrightarrow> getitem env store self index = Inr smp \<Longrightarrow>
   load_image env store self index = Inr (s_image smp)"
  by (auto simp: getitem_def bindE_def split: sum.splits prod.splits)

lemma init_fields:
  assumes "init env fs rootdir (Seq s) transforms dl checksum = Inr (self, fs')"
  shows "''h5py'' \<in> set (installed env)" and "set (items s) \<subseteq> set band_names"
    and "ds_band_indices self =
           \<lparr>dtype = Int64, dshape = [length (items s)],
            dvals = map (\<lambda>b. int (the (index_of band_names b))) (items s)\<rparr>"
    and "ds_transforms self = transforms" and "ds_bands self = s"
    and "ds_filepath self = path_join rootdir ''ZueriCrop.hdf5''"
proof -
  show h: "''h5py'' \<in> set (installed env)"
    using assms by (auto simp: init_def lazy_import_def split: if_splits)
  show v: "set (items s) \<subseteq> set band_names"
    using assms h
    by (auto simp: init_def lazy_import_def validate_bands_def bindE_eq_Inr validate_loop_ok)
  from assms have "self = \<lparr>ds_root = rootdir, ds_bands = s,
                   ds_band_indices = to_dtype Int64 (torch_tensor_list
                      (map int (map (\<lambda>b. the (index_of band_names b)) (items s)))),
                   ds_transforms = transforms, ds_download = dl, ds_checksum = checksum,
                   ds_filepath = path_join rootdir ''ZueriCrop.hdf5''\<rparr>"
    by (auto simp: init_valid[OF h v] Let_def bindE_eq_Inr)
  then show "ds_band_indices self =
           \<lparr>dtype = Int64, dshape = [length (items s)],
            dvals = map (\<lambda>b. int (the (index_of band_names b))) (items s)\<rparr>"
    and "ds_transforms self = transforms" and "ds_bands self = s"
    and "ds_filepath self = path_join rootdir ''ZueriCrop.hdf5''"
    by (simp_all add: torch_tensor_list_def comp_def)
qed

lemma load_image_select:
  assumes "''h5py'' \<in> set (installed env)"
    and "store (ds_filepath self) = Some f"
    and "h5_getitem (h5_data f) index = Inr array"
    and "shape4 array = (t, h, w, c)"
    and "ds_band_indices self = \<lparr>dtype = Int64, dshape = [length idx], dvals = map int idx\<rparr>"
    and "\<forall>i \<in> set idx. i < c"
  shows "\<exists>image. load_image env store self index = Inr image \<and>
           shape4 image = (t, length idx, h, w) \<and>
           (\<forall>j<length idx. \<forall>a y x. at4 image a j y x = at4 array a y x (idx ! j))"
  using assms
  by (auto simp: load_image_def lazy_import_def h5py_File_def index_select1_def permute_0312_def)

lemma band_position:
  assumes "b \<in> set band_names"
  shows "the (index_of band_names b) < 9" and "band_names ! the (index_of band_names b) = b"
proof -
  from index_of_Some[OF assms] obtain i where i: "index_of band_names b = Some i" by auto
  from index_of_first[OF i] have "i < length band_names" "band_names ! i = b" by auto
  with i show "the (index_of band_names b) < 9" and "band_names ! the (index_of band_names b) = b"
    by (simp_all add: band_names_def)
qed

text \<open>
  Claim C9.  For a valid band sequence (every entry one of the nine band names) with
  which construction succeeded, the band-index tensor has as many entries as the
  sequence, and its entry at each position is the position of that band in
  \<open>band_names\<close>, in the order of the sequence.  For an archive entry with nine
  channels, \<open>_load_image\<close> returns an image whose channel dimension is the length of
  the sequence, and so is the image of every sample \<open>__getitem__\<close> returns when no
  transform is set.
\<close>

theorem band_indices_follow_subset:
  assumes "set (items s) \<subseteq> set band_names"
    and "init env fs rootdir (Seq s) transforms dl checksum = Inr (self, fs')"
    and "store (ds_filepath self) = Some f"
    and "h5_getitem (h5_data f) index = Inr array"
    and "shape4 array = (t, h, w, 9)"
  shows "length (dvals (ds_band_indices self)) = length (items s) \<and>
         dshape (ds_band_indices self) = [length (items s)] \<and>
         (\<forall>j<length (items s).
            dvals (ds_band_indices self) ! j = int (the (index_of band_names (items s ! j))) \<and>
            0 \<le> dvals (ds_band_indices self) ! j \<and> dvals (ds_band_indices self) ! j < 9 \<and>
            band_names ! nat (dvals (ds_band_indices self) ! j) = items s ! j) \<and>
         (\<exists>image. load_image env store self index = Inr image \<and>
            shape4 image = (t, length (items s), h, w)) \<and>
         (transforms = None \<longrightarrow>
            (\<forall>smp. getitem env store self index = Inr smp \<longrightarrow>
               shape4 (s_image smp) = (t, length (items s), h, w)))"
proof -
  note f = init_fields[OF assms(2)]
  let ?idx = "map (\<lambda>b. the (index_of band_names b)) (items s)"
  have bi: "ds_band_indices self = \<lparr>dtype = Int64, dshape = [length ?idx], dvals = map int ?idx\<rparr>"
    by (simp add: f(3) comp_def)
  have rng: "\<forall>i \<in> set ?idx. i < 9"
    using assms(1) band_position(1) by auto
  from load_image_select[where idx = ?idx and store = store and self = self, OF f(1) assms(3) assms(4) assms(5) bi rng]
  obtain image where im: "load_image env store self index = Inr image"
      "shape4 image = (t, length (items s), h, w)"
    by auto
  have pos: "\<forall>j<length (items s).
            dvals (ds_band_indices self) ! j = int (the (index_of band_names (items s ! j))) \<and>
            0 \<le> dvals (ds_band_indices self) ! j \<and> dvals (ds_band_indices self) ! j < 9 \<and>
            band_names ! nat (dvals (ds_band_indices self) ! j) = items s ! j"
  proof (intro allI impI)
    fix j assume j: "j < length (items s)"
    then have "items s ! j \<in> set band_names" using assms(1) by (auto simp: subset_iff)
    from band_position[OF this] j
    show "dvals (ds_band_indices self) ! j = int (the (index_of band_names (items s ! j))) \<and>
            0 \<le> dvals (ds_band_indices self) ! j \<and> dvals (ds_band_indices self) ! j < 9 \<and>
            band_names ! nat (dvals (ds_band_indices self) ! j) = items s ! j"
      by (simp add: f(3))
  qed
  have gi: "transforms = None \<longrightarrow>
            (\<forall>smp. getitem env store self index = Inr smp \<longrightarrow>
               shape4 (s_image smp) = (t, length (items s), h, w))"
  proof (intro impI allI)
    fix smp assume "transforms = None" "getitem env store self index = Inr smp"
    then have "load_image env store self index = Inr (s_image smp)"
      using getitem_image f(4) by simp
    with im show "shape4 (s_image smp) = (t, length (items s), h, w)" by simp
  qed
  show ?thesis using im pos gi by (simp add: f(3))
qed

theorem band_indices_follow_subset_witness:
  "length (dvals (ds_band_indices ex_ds)) = 3 \<and>
   band_names ! nat (dvals (ds_band_indices ex_ds) ! 0) = ''B04'' \<and>
   band_names ! nat (dvals (ds_band_indices ex_ds) ! 1) = ''B03'' \<and>
   band_names ! nat (dvals (ds_band_indices ex_ds) ! 2) = ''B02'' \<and>
   (\<exists>image. load_image ex_env ex_store ex_ds 0 = Inr image \<and> shape4 image = (2, 3, 1, 5))"
proof -
  have a: "set (items (PyList [''B04'', ''B03'', ''B02''])) \<subseteq> set band_names"
    by (simp add: band_names_def)
  have b: "ex_store (ds_filepath ex_ds) = Some ex_archive"
    by (simp add: ex_store_def ex_ds_def)
  have c: "h5_getitem (h5_data ex_archive) 0 = Inr ex_data"
    by (simp add: h5_getitem_def ex_archive_def)
  have d: "shape4 ex_data = (2, 1, 5, 9)"
    by (simp add: ex_data_def)
  from band_indices_follow_subset[where store = ex_store and self = ex_ds, OF a ex_ds_init b c d] show ?thesis
    by (auto simp: numeral_3_eq_3)
qed


text \<open>
  Claim C10.  Validation only checks membership, so with the library installed and
  both files present construction returns for every sequence of band names, the empty
  one and those with repeated names included.  The image then has one channel per
  entry of the sequence (none for the empty sequence), and the channel at each
  position is the archive channel of the band named there, so a repeated band appears
  once per occurrence.
\<close>

theorem empty_and_duplicate_bands:
  assumes "''h5py'' \<in> set (installed env)"
    and "fs (path_join rootdir ''ZueriCrop.hdf5'')" and "fs (path_join rootdir ''labels.csv'')"
    and "set (items s) \<subseteq> set band_names"
    and "store (path_join rootdir ''ZueriCrop.hdf5'') = Some f"
    and "h5_getitem (h5_data f) index = Inr array"
    and "shape4 array = (t, h, w, 9)"
  shows "\<exists>self image.
           init env fs rootdir (Seq s) transforms dl checksum = Inr (self, fs) \<and>
           load_image env store self index = Inr image \<and>
           shape4 image = (t, length (items s), h, w) \<and>
           (\<forall>j<length (items s). \<forall>a y x.
              at4 image a j y x = at4 array a y x (the (index_of band_names (items s ! j)))) \<and>
           (transforms = None \<longrightarrow>
              (\<forall>smp. getitem env store self index = Inr smp \<longrightarrow> s_image smp = image))"
proof -
  let ?idx = "map (\<lambda>b. the (index_of band_names b)) (items s)"
  define self where "self = \<lparr>ds_root = rootdir, ds_bands = s,
                   ds_band_indices = to_dtype Int64 (torch_tensor_list (map int ?idx)),
                   ds_transforms = transforms, ds_download = dl, ds_checksum = checksum,
                   ds_filepath = path_join rootdir ''ZueriCrop.hdf5''\<rparr>"
  have i: "init env fs rootdir (Seq s) transforms dl checksum = Inr (self, fs)"
    using assms(2,3) by (simp add: init_valid[OF assms(1,4)] self_def verify_present)
  have st: "store (ds_filepath self) = Some f"
    using assms(5) by (simp add: self_def)
  have bi: "ds_band_indices self = \<lparr>dtype = Int64, dshape = [length ?idx], dvals = map int ?idx\<rparr>"
    by (simp add: self_def torch_tensor_list_def)
  have rng: "\<forall>i \<in> set ?idx. i < 9"
    using assms(4) band_position(1) by auto
  from load_image_select[where idx = ?idx and store = store and self = self,
      OF assms(1) st assms(6) assms(7) bi rng]
  obtain image where im: "load_image env store self index = Inr image"
      "shape4 image = (t, length (items s), h, w)"
      "\<forall>j<length (items s). \<forall>a y x.
          at4 image a j y x = at4 array a y x (the (index_of band_names (items s ! j)))"
    by auto
  have "transforms = None \<longrightarrow>
          (\<forall>smp. getitem env store self index = Inr smp \<longrightarrow> s_image smp = image)"
  proof (intro impI allI)
    fix smp assume "transforms = None" "getitem env store self index = Inr smp"
    then have "load_image env store self index = Inr (s_image smp)"
      using getitem_image[of self env store index smp] by (simp add: self_def)
    with im(1) show "s_image smp = image" by simp
  qed
  with i im show ?thesis by blast
qed

theorem empty_and_duplicate_bands_witness:
  "(\<exists>self image.
      init ex_env ex_fs ''data'' (Seq (PyList [])) None False False = Inr (self, ex_fs) \<and>
      load_image ex_env ex_store self 0 = Inr image \<and> shape4 image = (2, 0, 1, 5)) \<and>
   (\<exists>self image.
      init ex_env ex_fs ''data'' (Seq (PyTuple [''B02'', ''NIR'', ''B02''])) None False False =
        Inr (self, ex_fs) \<and>
      load_image ex_env ex_store self 0 = Inr image \<and> shape4 image = (2, 3, 1, 5) \<and>
      at4 image 1 0 0 4 = 1042 \<and> at4 image 1 1 0 4 = 1040 \<and> at4 image 1 2 0 4 = 1042)"
proof -
  have e: "''h5py'' \<in> set (installed ex_env)"
    by (simp add: ex_env_def)
  have p: "ex_fs (path_join ''data'' ''ZueriCrop.hdf5'')" "ex_fs (path_join ''data'' ''labels.csv'')"
    by (simp_all add: ex_fs_def path_join_def)
  have b: "ex_store (path_join ''data'' ''ZueriCrop.hdf5'') = Some ex_archive"
    by (simp add: ex_store_def path_join_def)
  have c: "h5_getitem (h5_data ex_archive) 0 = Inr ex_data"
    by (simp add: h5_getitem_def ex_archive_def)
  have d: "shape4 ex_data = (2, 1, 5, 9)"
    by (simp add: ex_data_def)
  have v0: "set (items (PyList [])) \<subseteq> set band_names"
    by simp
  have v2: "set (items (PyTuple [''B02'', ''NIR'', ''B02''])) \<subseteq> set band_names"
    by (simp add: band_names_def)
  have i: "the (index_of band_names ''B02'') = 2" "the (index_of band_names ''NIR'') = 0"
    by (simp_all add: band_names_def)
  from empty_and_duplicate_bands[where store = ex_store and transforms = None and dl = False
      and checksum = False, OF e p v0 b c d]
  have first: "\<exists>self image.
      init ex_env ex_fs ''data'' (Seq (PyList [])) None False False = Inr (self, ex_fs) \<and>
      load_image ex_env ex_store self 0 = Inr image \<and> shape4 image = (2, 0, 1, 5)"
    by auto
  from empty_and_duplicate_bands[where store = ex_store and transforms = None and dl = False
      and checksum = False, OF e p v2 b c d]
  obtain self image where s:
      "init ex_env ex_fs ''data'' (Seq (PyTuple [''B02'', ''NIR'', ''B02''])) None False False =
        Inr (self, ex_fs)"
      "load_image ex_env ex_store self 0 = Inr image" "shape4 image = (2, 3, 1, 5)"
      "\<forall>j<3. \<forall>a y x. at4 image a j y x =
          at4 ex_data a y x (the (index_of band_names ([''B02'', ''NIR'', ''B02''] ! j)))"
    by auto
  from s(4) have "at4 image 1 0 0 4 = 1042" "at4 image 1 1 0 4 = 1040" "at4 image 1 2 0 4 = 1042"
    by (simp_all add: i ex_data_def)
  with s first show ?thesis by blast
qed

section \<open>Properties of plotting\<close>

lemma py_in_index: "py_in b s \<Longrightarrow> py_index s b = Inr (the (seq_find s b))"
  by (auto simp: py_in_def py_index_def)

lemma rgb_loop_present:
  "\<forall>b \<in> set bs. py_in b s \<Longrightarrow> rgb_loop s bs = Inr (map (\<lambda>b. the (seq_find s b)) bs)"
  by (induction bs) (simp_all add: py_in_index)

lemma rgb_loop_missing:
  "\<exists>b \<in> set bs. \<not> py_in b s \<Longrightarrow> rgb_loop s bs = Inl RGBBandsMissingError"
  by (induction bs) (auto simp: py_in_index)

lemma index_of_iff: "index_of xs x \<noteq> None \<longleftrightarrow> x \<in> set xs"
  by (induction xs) auto

lemma valid_str_empty:
  assumes "set (items (PyStr s)) \<subseteq> set band_names"
  shows "s = []"
proof (cases s)
  case Nil
  then show ?thesis .
next
  case (Cons c cs)
  with assms have "[c] \<in> set band_names" by simp
  then show ?thesis by (simp add: band_names_def)
qed

lemma py_in_items:
  assumes "set (items s) \<subseteq> set band_names" and "b \<noteq> []"
  shows "py_in b s \<longleftrightarrow> b \<in> set (items s)"
proof (cases s)
  case (PyList xs)
  then show ?thesis using index_of_iff[of xs b] by (auto simp: py_in_def)
next
  case (PyTuple xs)
  then show ?thesis using index_of_iff[of xs b] by (auto simp: py_in_def)
next
  case (PyStr str)
  with assms(1) have "str = []" using valid_str_empty by simp
  with PyStr assms(2) show ?thesis by (simp add: py_in_def)
qed

lemma seq_find_bound:
  assumes "set (items s) \<subseteq> set band_names" and "b \<noteq> []" and "py_in b s"
  shows "the (seq_find s b) < length (items s)"
proof (cases s)
  case (PyList xs)
  with assms(3) obtain i where "index_of xs b = Some i" by (auto simp: py_in_def)
  with index_of_first[OF this] PyList show ?thesis by simp
next
  case (PyTuple xs)
  with assms(3) obtain i where "index_of xs b = Some i" by (auto simp: py_in_def)
  with index_of_first[OF this] PyTuple show ?thesis by simp
next
  case (PyStr str)
  with assms(1) have "str = []" using valid_str_empty by simp
  with PyStr assms(2,3) show ?thesis by (simp add: py_in_def)
qed

lemma rgb_nonempty: "b \<in> set rgb_bands \<Longrightarrow> b \<noteq> []"
  by (auto simp: rgb_bands_def)

lemma plot_after_rgb:
  assumes "rgb_loop (ds_bands self) rgb_bands = Inr idx"
  shows "plot env self sample time_step show_titles suptitle \<noteq> Inl RGBBandsMissingError"
    and "plot env self sample time_step show_titles suptitle = Inr fig \<Longrightarrow>
         fig_ncols fig = (if s_prediction sample = None then 2 else 3) \<and>
         length (fig_axs fig) = fig_ncols fig"
    and "shape4 (s_image sample) = (t, c, h, w) \<Longrightarrow> \<forall>i \<in> set idx. i < c \<Longrightarrow>
         - int t \<le> time_step \<Longrightarrow> time_step < int t \<Longrightarrow> fst (shape3 (s_mask sample)) \<noteq> 0 \<Longrightarrow>
         (\<forall>p. s_prediction sample = Some p \<longrightarrow> fst (shape3 p) \<noteq> 0) \<Longrightarrow>
         \<exists>fig. plot env self sample time_step show_titles suptitle = Inr fig"
proof -
  show "plot env self sample time_step show_titles suptitle \<noteq> Inl RGBBandsMissingError"
    using assms
    by (auto simp: plot_def bindE_def index_time_bands_def argmax0_def Let_def
        split: sum.splits prod.splits option.splits if_splits)
  show "plot env self sample time_step show_titles suptitle = Inr fig \<Longrightarrow>
         fig_ncols fig = (if s_prediction sample = None then 2 else 3) \<and>
         length (fig_axs fig) = fig_ncols fig"
    using assms
    by (auto simp: plot_def bindE_def Let_def split: sum.splits prod.splits option.splits)
  show "shape4 (s_image sample) = (t, c, h, w) \<Longrightarrow> \<forall>i \<in> set idx. i < c \<Longrightarrow>
         - int t \<le> time_step \<Longrightarrow> time_step < int t \<Longrightarrow> fst (shape3 (s_mask sample)) \<noteq> 0 \<Longrightarrow>
         (\<forall>p. s_prediction sample = Some p \<longrightarrow> fst (shape3 p) \<noteq> 0) \<Longrightarrow>
         \<exists>fig. plot env self sample time_step show_titles suptitle = Inr fig"
    using assms
    by (cases "shape3 (s_mask sample)"; cases "s_prediction sample")
       (auto simp: plot_def index_time_bands_def argmax0_def Let_def split: prod.splits)
qed

text \<open>
  What \<open>plot\<close> does guarantee.  For a dataset whose band sequence is valid, it raises
  \<open>RGBBandsMissingError\<close> exactly when one of the three RGB band names is missing from
  the sequence.  When all three are present, every figure it returns has two panels
  for a sample without prediction and three for a sample with one; and it does return
  a figure when the time step lies inside the image, the image has a channel for every
  selected band, and the mask (and the prediction, if any) has at least one plane.
\<close>

lemma plot_rgb_bands:
  assumes "set (items (ds_bands self)) \<subseteq> set band_names"
  shows "(plot env self sample time_step show_titles suptitle = Inl RGBBandsMissingError \<longleftrightarrow>
            \<not> set rgb_bands \<subseteq> set (items (ds_bands self))) \<and>
         (set rgb_bands \<subseteq> set (items (ds_bands self)) \<longrightarrow>
            (\<forall>fig. plot env self sample time_step show_titles suptitle = Inr fig \<longrightarrow>
               fig_ncols fig = (if s_prediction sample = None then 2 else 3) \<and>
               length (fig_axs fig) = fig_ncols fig) \<and>
            (shape4 (s_image sample) = (t, c, h, w) \<and> length (items (ds_bands self)) \<le> c \<and>
             - int t \<le> time_step \<and> time_step < int t \<and> fst (shape3 (s_mask sample)) \<noteq> 0 \<and>
             (\<forall>p. s_prediction sample = Some p \<longrightarrow> fst (shape3 p) \<noteq> 0) \<longrightarrow>
             (\<exists>fig. plot env self sample time_step show_titles suptitle = Inr fig)))"
proof (cases "set rgb_bands \<subseteq> set (items (ds_bands self))")
  case True
  then have pin: "\<forall>b \<in> set rgb_bands. py_in b (ds_bands self)"
    using py_in_items[OF assms] rgb_nonempty by auto
  let ?idx = "map (\<lambda>b. the (seq_find (ds_bands self) b)) rgb_bands"
  have loop: "rgb_loop (ds_bands self) rgb_bands = Inr ?idx"
    by (rule rgb_loop_present[OF pin])
  have bound: "\<forall>i \<in> set ?idx. i < length (items (ds_bands self))"
    using seq_find_bound[OF assms] pin rgb_nonempty by auto
  note p = plot_after_rgb[OF loop, where env = env and sample = sample and time_step = time_step
      and show_titles = show_titles and suptitle = suptitle]
  have "shape4 (s_image sample) = (t, c, h, w) \<and> length (items (ds_bands self)) \<le> c \<and>
             - int t \<le> time_step \<and> time_step < int t \<and> fst (shape3 (s_mask sample)) \<noteq> 0 \<and>
             (\<forall>p. s_prediction sample = Some p \<longrightarrow> fst (shape3 p) \<noteq> 0) \<longrightarrow>
             (\<exists>fig. plot env self sample time_step show_titles suptitle = Inr fig)"
  proof
    assume a: "shape4 (s_image sample) = (t, c, h, w) \<and> length (items (ds_bands self)) \<le> c \<and>
             - int t \<le> time_step \<and> time_step < int t \<and> fst (shape3 (s_mask sample)) \<noteq> 0 \<and>
             (\<forall>p. s_prediction sample = Some p \<longrightarrow> fst (shape3 p) \<noteq> 0)"
    then have "\<forall>i \<in> set ?idx. i < c" using bound by fastforce
    with a p(3)[where t = t and c = c and h = h and w = w] show "\<exists>fig. plot env self sample time_step show_titles suptitle = Inr fig"
      by blast
  qed
  with True p(1) p(2) show ?thesis by blast
next
  case False
  then have "\<exists>b \<in> set rgb_bands. \<not> py_in b (ds_bands self)"
    using py_in_items[OF assms] rgb_nonempty by auto
  then have "rgb_loop (ds_bands self) rgb_bands = Inl RGBBandsMissingError"
    by (rule rgb_loop_missing)
  then have "plot env self sample time_step show_titles suptitle = Inl RGBBandsMissingError"
    by (simp add: plot_def)
  with False show ?thesis by simp
qed

lemma plot_rgb_bands_example:
  "plot ex_env ex_ds_nir ex_sample 0 True None = Inl RGBBandsMissingError \<and>
   (\<exists>fig. plot ex_env ex_ds ex_sample 0 True None = Inr fig \<and> fig_ncols fig = 2 \<and>
      length (fig_axs fig) = 2) \<and>
   (\<exists>fig. plot ex_env ex_ds (ex_sample\<lparr>s_prediction := Some ex_prediction\<rparr>) (- 1) False None = Inr fig \<and>
      fig_ncols fig = 3 \<and> length (fig_axs fig) = 3)"
proof -
  have v: "set (items (ds_bands ex_ds)) \<subseteq> set band_names"
      "set (items (ds_bands ex_ds_nir)) \<subseteq> set band_names"
    by (simp_all add: ex_ds_def ex_ds_nir_def band_names_def)
  have r: "set rgb_bands \<subseteq> set (items (ds_bands ex_ds))"
      "\<not> set rgb_bands \<subseteq> set (items (ds_bands ex_ds_nir))"
    by (simp_all add: ex_ds_def ex_ds_nir_def rgb_bands_def)
  have s: "shape4 (s_image ex_sample) = (2, 3, 1, 5)" "length (items (ds_bands ex_ds)) \<le> 3"
      "fst (shape3 (s_mask ex_sample)) \<noteq> 0" "s_prediction ex_sample = None"
      "fst (shape3 ex_prediction) \<noteq> 0"
    by (simp_all add: ex_sample_def ex_ds_def array3_def ex_prediction_def)
  from plot_rgb_bands[OF v(2), where env = ex_env and sample = ex_sample and time_step = 0
      and show_titles = True and suptitle = None] r(2)
  have a: "plot ex_env ex_ds_nir ex_sample 0 True None = Inl RGBBandsMissingError"
    by blast
  from plot_rgb_bands[OF v(1), where env = ex_env and sample = ex_sample and time_step = 0
      and show_titles = True and suptitle = None and t = 2 and c = 3 and h = 1 and w = 5] r(1) s
  have b: "\<exists>fig. plot ex_env ex_ds ex_sample 0 True None = Inr fig \<and> fig_ncols fig = 2 \<and>
      length (fig_axs fig) = 2"
    by auto
  from plot_rgb_bands[OF v(1), where env = ex_env
      and sample = "ex_sample\<lparr>s_prediction := Some ex_prediction\<rparr>" and time_step = "- 1"
      and show_titles = False and suptitle = None and t = 2 and c = 3 and h = 1 and w = 5] r(1) s
  have c: "\<exists>fig. plot ex_env ex_ds (ex_sample\<lparr>s_prediction := Some ex_prediction\<rparr>) (- 1) False None
      = Inr fig \<and> fig_ncols fig = 3 \<and> length (fig_axs fig) = 3"
    by auto
  from a b c show ?thesis by blast
qed

text \<open>
  Claim C7 at an index whose instance array holds background only.  The dataset has
  the three RGB bands selected and \<open>__getitem__\<close> returns a sample, with no mask
  plane; \<open>plot\<close> on that sample returns no figure: \<open>torch.argmax(mask, dim=0)\<close>
  raises \<open>IndexError\<close> on the empty dimension.
\<close>

theorem plot_background_only_sample:
  "set rgb_bands \<subseteq> set (items (ds_bands ex_ds)) \<and>
   returned (shape3 \<circ> s_mask) (getitem ex_env ex_store_background ex_ds 0) = Some (0, 1, 5) \<and>
   plot_item ex_env ex_store_background ex_ds 0 0 True None = Inl IndexError"
proof -
  have "raised (plot_item ex_env ex_store_background ex_ds 0 0 True None) = Some IndexError"
    by code_simp
  then have "plot_item ex_env ex_store_background ex_ds 0 0 True None = Inl IndexError"
    by (cases "plot_item ex_env ex_store_background ex_ds 0 0 True None")
       (simp_all add: raised_def)
  moreover have "set rgb_bands \<subseteq> set (items (ds_bands ex_ds))"
    by code_simp
  moreover have
    "returned (shape3 \<circ> s_mask) (getitem ex_env ex_store_background ex_ds 0) = Some (0, 1, 5)"
    by code_simp
  ultimately show ?thesis by simp
qed

section \<open>Properties of the target\<close>

lemma getitem_target:
  assumes "ds_transforms self = None" and "getitem env store self index = Inr smp"
    and "store (ds_filepath self) = Some f"
    and "h5_getitem (h5_gt f) index = Inr mask_array"
    and "h5_getitem (h5_gt_instance f) index = Inr instance_array"
  shows "target_of mask_array instance_array = Inr (s_mask smp, s_bbox_xyxy smp, s_label smp)"
  using assms
  by (auto simp: getitem_def load_target_def h5py_File_def bindE_def
      split: sum.splits prod.splits)

lemma load_image_installed:
  "load_image env store self index = Inr img \<Longrightarrow> ''h5py'' \<in> set (installed env)"
  by (auto simp: load_image_def lazy_import_def split: if_splits)

lemma getitem_returns:
  assumes "ds_transforms self = None" and "load_image env store self index = Inr img"
    and "store (ds_filepath self) = Some f"
    and "h5_getitem (h5_gt f) index = Inr mask_array"
    and "h5_getitem (h5_gt_instance f) index = Inr instance_array"
    and "target_of mask_array instance_array = Inr (m, b, l)"
  shows "getitem env store self index =
     Inr \<lparr>s_image = img, s_mask = m, s_bbox_xyxy = b, s_label = l, s_prediction = None\<rparr>"
  using assms load_image_installed[OF assms(2)]
  by (simp add: getitem_def load_target_def h5py_File_def import_h5py_def)

lemma target_of_parts:
  assumes "target_of mask_array instance_array = Inr (m, b, l)"
  obtains masks labels_list boxes_list where
    "eq_broadcast (permute_201 instance_array) (instance_ids_of (permute_201 instance_array)) = Inr masks"
    "labels_loop (permute_201 mask_array) (planes masks) = Inr labels_list"
    "boxes_loop (planes masks) = Inr boxes_list"
    "m = to_uint8 masks"
    "b = to_dtype Float32 (torch_tensor_rows boxes_list)"
    "l = to_dtype Int64 (torch_tensor_list labels_list)"
  using assms by (auto simp: target_of_def Let_def bindE_eq_Inr)

lemma planes_length: "shape3 t = (m, h, w) \<Longrightarrow> length (planes t) = m"
  by (simp add: planes_def)

lemma planes_nth:
  "shape3 t = (m, h, w) \<Longrightarrow> i < m \<Longrightarrow> planes t ! i = \<lparr>shape2 = (h, w), at2 = at3 t i\<rparr>"
  by (simp add: planes_def)

lemma to_uint8_true: "at3 (to_uint8 t) i y x = 1 \<longleftrightarrow> at3 t i y x"
  by (simp add: to_uint8_def)

lemma to_uint8_shape: "shape3 (to_uint8 t) = shape3 t"
  by (simp add: to_uint8_def)

lemma set_select3:
  "set [f k y x. k \<leftarrow> [0..<c], y \<leftarrow> [0..<h], x \<leftarrow> [0..<w], P k y x] =
     {f k y x | k y x. k < c \<and> y < h \<and> x < w \<and> P k y x}"
  by fastforce

lemma set_select2:
  "set [f y x. y \<leftarrow> [0..<h], x \<leftarrow> [0..<w], P y x] =
     {f y x | y x. y < h \<and> x < w \<and> P y x}"
  by fastforce

lemma set_flatten3:
  "shape3 t = (c, h, w) \<Longrightarrow>
   set (flatten3 t) = {at3 t k y x | k y x. k < c \<and> y < h \<and> x < w}"
  by (fastforce simp: flatten3_def)

lemma ex_getitem:
  "returned (shape3 \<circ> s_mask) (getitem ex_env ex_store ex_ds 0) = Some (2, 1, 5)"
  "returned (tolist3 \<circ> s_mask) (getitem ex_env ex_store ex_ds 0) =
     Some [[[0, 0, 1, 1, 0]], [[0, 0, 0, 0, 1]]]"
  "returned s_bbox_xyxy (getitem ex_env ex_store ex_ds 0) =
     Some \<lparr>dtype = Float32, dshape = [2, 4], dvals = [2, 0, 3, 0, 4, 0, 4, 0]\<rparr>"
  "returned s_label (getitem ex_env ex_store ex_ds 0) =
     Some \<lparr>dtype = Int64, dshape = [2], dvals = [3, 9]\<rparr>"
  by code_simp+

lemma ex_reads:
  "ds_transforms ex_ds = None"
  "ex_store (ds_filepath ex_ds) = Some ex_archive"
  "h5_getitem (h5_gt ex_archive) 0 = Inr ex_gt"
  "h5_getitem (h5_gt_instance ex_archive) 0 = Inr ex_instance"
  "shape3 ex_instance = (1, 5, 1)"
  "shape3 ex_gt = (1, 5, 1)"
  by (simp_all add: ex_ds_def ex_store_def ex_archive_def h5_getitem_def ex_instance_def
      ex_gt_def array3_def)

lemma ex_sample_returned:
  obtains smp where "getitem ex_env ex_store ex_ds 0 = Inr smp"
    and "shape3 (s_mask smp) = (2, 1, 5)"
    and "tolist3 (s_mask smp) = [[[0, 0, 1, 1, 0]], [[0, 0, 0, 0, 1]]]"
    and "s_bbox_xyxy smp = \<lparr>dtype = Float32, dshape = [2, 4], dvals = [2, 0, 3, 0, 4, 0, 4, 0]\<rparr>"
    and "s_label smp = \<lparr>dtype = Int64, dshape = [2], dvals = [3, 9]\<rparr>"
  using ex_getitem
  by (cases "getitem ex_env ex_store ex_ds 0") (auto simp: returned_def)

lemma ex_ids: "instance_ids_of (permute_201 ex_instance) = [2, 5]"
  by code_simp

lemma instance_ids_single:
  assumes "shape3 instance_array = (h, w, 1)"
    and "ids = instance_ids_of (permute_201 instance_array)"
  shows "sorted ids" and "distinct ids"
    and "set ids = {at3 instance_array y x 0 | y x. y < h \<and> x < w} - {0}"
proof -
  have sh: "shape3 (permute_201 instance_array) = (1, h, w)"
    using assms(1) by (simp add: permute_201_def)
  show "sorted ids"
    unfolding assms(2) instance_ids_of_def torch_unique_def
    using sorted_filter[of "\<lambda>x. x" "sort (remdups (flatten3 (permute_201 instance_array)))"]
    by simp
  show "distinct ids"
    unfolding assms(2) instance_ids_of_def torch_unique_def by simp
  have "set (flatten3 (permute_201 instance_array)) =
      {at3 instance_array y x 0 | y x. y < h \<and> x < w}"
    unfolding set_flatten3[OF sh] using assms(1) by (auto simp: permute_201_def)
  then show "set ids = {at3 instance_array y x 0 | y x. y < h \<and> x < w} - {0}"
    unfolding assms(2) instance_ids_of_def torch_unique_def by auto
qed

lemma eq_broadcast_single:
  assumes "shape3 t = (1, h, w)"
  shows "\<exists>masks. eq_broadcast t ids = Inr masks \<and> shape3 masks = (length ids, h, w) \<and>
           (\<forall>i<length ids. \<forall>y x. at3 masks i y x = (at3 t 0 y x = ids ! i))"
  using assms by (auto simp: eq_broadcast_def Let_def)

text \<open>
  Claim C1, amended.  For an index whose instance array has a single channel
  (shape \<open>H \<times> W \<times> 1\<close>), every sample \<open>__getitem__\<close> returns (no transform set) has
  its masks derived from the distinct nonzero values of the instance array: the ids
  are sorted ascending, without repetition, and are exactly the values of the array
  other than 0; the mask tensor has shape \<open>I \<times> H \<times> W\<close> for \<open>I\<close> the number of
  ids, and its plane for an id is 1 where the instance array equals the id and 0
  elsewhere, the planes in the order of the ids.
\<close>

theorem instance_masks_single_channel:
  assumes "ds_transforms self = None" and "getitem env store self index = Inr smp"
    and "store (ds_filepath self) = Some f"
    and "h5_getitem (h5_gt f) index = Inr mask_array"
    and "h5_getitem (h5_gt_instance f) index = Inr instance_array"
    and "shape3 instance_array = (h, w, 1)"
    and "ids = instance_ids_of (permute_201 instance_array)"
  shows "sorted ids \<and> distinct ids \<and>
         set ids = {at3 instance_array y x 0 | y x. y < h \<and> x < w} - {0} \<and>
         shape3 (s_mask smp) = (length ids, h, w) \<and>
         tolist3 (s_mask smp) =
           map (\<lambda>v. map (\<lambda>y. map (\<lambda>x. if at3 instance_array y x 0 = v then 1 else 0) [0..<w]) [0..<h])
               ids"
proof -
  from getitem_target[OF assms(1-5)]
  obtain masks where
    p: "eq_broadcast (permute_201 instance_array) (instance_ids_of (permute_201 instance_array))
          = Inr masks"
       "s_mask smp = to_uint8 masks"
    by (rule target_of_parts)
  have sh: "shape3 (permute_201 instance_array) = (1, h, w)"
    using assms(6) by (simp add: permute_201_def)
  from eq_broadcast_single[OF sh, of ids] p(1) assms(7)
  have m: "shape3 masks = (length ids, h, w)"
       "\<forall>i<length ids. \<forall>y x. at3 masks i y x = (at3 (permute_201 instance_array) 0 y x = ids ! i)"
    by auto
  have at: "at3 (permute_201 instance_array) 0 y x = at3 instance_array y x 0" for y x
    using assms(6) by (simp add: permute_201_def)
  have "tolist3 (s_mask smp) =
      map (\<lambda>i. map (\<lambda>y. map (\<lambda>x. if at3 instance_array y x 0 = ids ! i then 1 else 0) [0..<w]) [0..<h])
          [0..<length ids]"
    using m by (simp add: p(2) tolist3_def to_uint8_def at)
  also have "\<dots> =
      map (\<lambda>v. map (\<lambda>y. map (\<lambda>x. if at3 instance_array y x 0 = v then 1 else 0) [0..<w]) [0..<h])
          (map (\<lambda>i. ids ! i) [0..<length ids])"
    by (simp add: comp_def)
  also have "map (\<lambda>i. ids ! i) [0..<length ids] = ids"
    by (rule map_nth)
  finally have tl: "tolist3 (s_mask smp) =
      map (\<lambda>v. map (\<lambda>y. map (\<lambda>x. if at3 instance_array y x 0 = v then 1 else 0) [0..<w]) [0..<h]) ids" .
  from instance_ids_single[OF assms(6,7)] m(1) tl show ?thesis
    by (simp add: p(2) to_uint8_shape)
qed

theorem instance_masks_single_channel_witness:
  "\<exists>smp. getitem ex_env ex_store ex_ds 0 = Inr smp \<and>
     instance_ids_of (permute_201 ex_instance) = [2, 5] \<and>
     shape3 (s_mask smp) = (2, 1, 5) \<and>
     tolist3 (s_mask smp) = [[[0, 0, 1, 1, 0]], [[0, 0, 0, 0, 1]]]"
proof -
  obtain smp where smp: "getitem ex_env ex_store ex_ds 0 = Inr smp"
    by (rule ex_sample_returned)
  from instance_masks_single_channel[where store = ex_store and self = ex_ds,
      OF ex_reads(1) smp ex_reads(2-5) ex_ids[symmetric]]
  have "shape3 (s_mask smp) = (2, 1, 5)"
    and "tolist3 (s_mask smp) = [[[0, 0, 1, 1, 0]], [[0, 0, 0, 0, 1]]]"
    by (simp_all add: ex_instance_def array3_def upt_conv_Cons)
  with smp ex_ids show ?thesis by blast
qed

text \<open>
  Claim C1 as stated fails for an instance array with two channels: the array below
  has the single nonzero id 2, and the comparison against the ids, of shape
  \<open>(1, 1, 1)\<close>, broadcasts over the two channels, so that the sample has two mask
  planes for one id.
\<close>

theorem instance_masks_counterexample:
  "instance_ids_of (permute_201 ex_instance_two) = [2] \<and>
   returned (tolist3 \<circ> s_mask) (getitem ex_env ex_store_two ex_ds 0) =
     Some [[[0, 0, 1, 1, 1]], [[0, 0, 1, 1, 1]]]"
  by code_simp

lemma sorted_hd_Min: "sorted xs \<Longrightarrow> xs \<noteq> [] \<Longrightarrow> hd xs = Min (set xs)"
  by (cases xs) (auto intro!: Min_eqI[symmetric])

lemma first_unique:
  "first_elem (torch_unique xs) = (if xs = [] then Inl IndexError else Inr (Min (set xs)))"
proof (cases "xs = []")
  case True
  then show ?thesis by (simp add: first_elem_def torch_unique_def)
next
  case False
  then have ne: "sort (remdups xs) \<noteq> []"
    by (metis set_empty set_remdups set_sort)
  then obtain y ys where ys: "sort (remdups xs) = y # ys" by (cases "sort (remdups xs)") auto
  have "hd (sort (remdups xs)) = Min (set (sort (remdups xs)))"
    using sorted_hd_Min[OF _ ne] by simp
  moreover have "set (sort (remdups xs)) = set xs" by simp
  ultimately have "y = Min (set xs)" using ys by (simp del: set_sort set_remdups)
  with ys False show ?thesis by (simp add: first_elem_def torch_unique_def)
qed

lemma labels_loop_Inr:
  "labels_loop mt ps = Inr ls \<Longrightarrow>
   length ls = length ps \<and>
   (\<forall>i<length ps. \<exists>sel. masked_select mt (unsqueeze0 (ps ! i)) = Inr sel \<and> sel \<noteq> [] \<and>
        ls ! i = Min (set sel))"
proof (induction ps arbitrary: ls)
  case Nil
  then show ?case by simp
next
  case (Cons p ps)
  from Cons.prems obtain sel l ls' where
    s: "masked_select mt (unsqueeze0 p) = Inr sel" "first_elem (torch_unique sel) = Inr l"
       "labels_loop mt ps = Inr ls'" "ls = l # ls'"
    by (auto simp: bindE_eq_Inr)
  from s(2) have l: "sel \<noteq> []" "l = Min (set sel)"
    by (auto simp: first_unique split: if_splits)
  from Cons.IH[OF s(3)] s l show ?case
    by (auto simp: nth_Cons split: nat.splits)
qed

lemma masked_select_unsqueeze:
  assumes "masked_select mt (unsqueeze0 p) = Inr sel" and "shape2 p = (h, w)"
    and "shape3 mt = (kc, h', w')"
  shows "kc = 1 \<and> h' = h \<and> w' = w \<and>
         set sel = {at3 mt k y x | k y x. k < kc \<and> y < h \<and> x < w \<and> at2 p y x}"
proof -
  from assms have sh: "kc = 1" "h' = h" "w' = w"
    by (auto simp: masked_select_def unsqueeze0_def split: if_splits)
  with assms have "sel = [at3 mt k y x. k \<leftarrow> [0..<kc], y \<leftarrow> [0..<h], x \<leftarrow> [0..<w], at2 p y x]"
    by (auto simp: masked_select_def unsqueeze0_def split: if_splits)
  then have "set sel = {at3 mt k y x | k y x. k < kc \<and> y < h \<and> x < w \<and> at2 p y x}"
    by (simp only: set_select3)
  with sh show ?thesis by simp
qed

lemma label_tensor:
  "dshape (torch_tensor_list ls) = [length ls]"
  "dvals (torch_tensor_list ls) = ls"
  by (simp_all add: torch_tensor_list_def)

text \<open>
  Claim C2.  In every sample \<open>__getitem__\<close> returns (no transform set), each
  instance mask has a true pixel, and the label at its position is the smallest of
  the class-array values at the pixels where the mask is true, taken over all class
  channels; there are as many labels as masks.  (Indexing with the mask of shape
  \<open>1 \<times> H \<times> W\<close> only returns when the class array has one channel, so the
  sample exists only then.)
\<close>

theorem label_is_smallest_class:
  assumes "ds_transforms self = None" and "getitem env store self index = Inr smp"
    and "store (ds_filepath self) = Some f"
    and "h5_getitem (h5_gt f) index = Inr mask_array"
    and "h5_getitem (h5_gt_instance f) index = Inr instance_array"
    and "shape3 mask_array = (h', w', kc)"
    and "shape3 (s_mask smp) = (m, h, w)" and "i < m"
  shows "(\<exists>y<h. \<exists>x<w. at3 (s_mask smp) i y x = 1) \<and>
         dvals (s_label smp) ! i =
           Min {at3 mask_array y x k | k y x. k < kc \<and> y < h \<and> x < w \<and> at3 (s_mask smp) i y x = 1} \<and>
         dshape (s_label smp) = [m] \<and> kc = 1 \<and> h' = h \<and> w' = w"
proof -
  from getitem_target[OF assms(1-5)]
  obtain masks ls where
    p: "labels_loop (permute_201 mask_array) (planes masks) = Inr ls"
       "s_mask smp = to_uint8 masks" "s_label smp = to_dtype Int64 (torch_tensor_list ls)"
    by (rule target_of_parts)
  from p(2) assms(7) have sh: "shape3 masks = (m, h, w)" by (simp add: to_uint8_shape)
  note ll = labels_loop_Inr[OF p(1)]
  from ll sh have len: "length ls = m" by (simp add: planes_length)
  from ll assms(8) sh obtain sel where
    sel: "masked_select (permute_201 mask_array) (unsqueeze0 (planes masks ! i)) = Inr sel"
         "sel \<noteq> []" "ls ! i = Min (set sel)"
    by (auto simp: planes_length)
  have pl: "planes masks ! i = \<lparr>shape2 = (h, w), at2 = at3 masks i\<rparr>"
    by (rule planes_nth[OF sh assms(8)])
  have mt: "shape3 (permute_201 mask_array) = (kc, h', w')"
    using assms(6) by (simp add: permute_201_def)
  from masked_select_unsqueeze[OF sel(1) _ mt, of h w] pl
  have ms: "kc = 1" "h' = h" "w' = w"
     "set sel = {at3 (permute_201 mask_array) k y x | k y x.
        k < kc \<and> y < h \<and> x < w \<and> at3 masks i y x}"
    by simp_all
  have "{at3 (permute_201 mask_array) k y x | k y x.
        k < kc \<and> y < h \<and> x < w \<and> at3 masks i y x} =
      {at3 mask_array y x k | k y x. k < kc \<and> y < h \<and> x < w \<and> at3 (s_mask smp) i y x = 1}"
    using assms(6) by (simp add: permute_201_def p(2) to_uint8_true)
  with ms(4) have eq: "set sel =
      {at3 mask_array y x k | k y x. k < kc \<and> y < h \<and> x < w \<and> at3 (s_mask smp) i y x = 1}"
    by simp
  from sel(2) have "set sel \<noteq> {}" by simp
  with eq have ne: "\<exists>y<h. \<exists>x<w. at3 (s_mask smp) i y x = 1" by auto
  from sel(3) eq have "dvals (s_label smp) ! i =
      Min {at3 mask_array y x k | k y x. k < kc \<and> y < h \<and> x < w \<and> at3 (s_mask smp) i y x = 1}"
    by (simp add: p(3) label_tensor)
  with ne len ms show ?thesis by (simp add: p(3) label_tensor)
qed

theorem label_is_smallest_class_witness:
  "\<exists>smp. getitem ex_env ex_store ex_ds 0 = Inr smp \<and>
     dvals (s_label smp) = [3, 9] \<and>
     Min {at3 ex_gt y x k | k y x. k < 1 \<and> y < 1 \<and> x < 5 \<and> at3 (s_mask smp) 0 y x = 1} = 3 \<and>
     Min {at3 ex_gt y x k | k y x. k < 1 \<and> y < 1 \<and> x < 5 \<and> at3 (s_mask smp) 1 y x = 1} = 9"
proof -
  obtain smp where smp: "getitem ex_env ex_store ex_ds 0 = Inr smp"
      "shape3 (s_mask smp) = (2, 1, 5)" "s_label smp = \<lparr>dtype = Int64, dshape = [2], dvals = [3, 9]\<rparr>"
    by (rule ex_sample_returned)
  note t = label_is_smallest_class[where store = ex_store and self = ex_ds,
      OF ex_reads(1) smp(1) ex_reads(2-4) ex_reads(6) smp(2)]
  from t[of 0] t[of 1] smp show ?thesis by auto
qed

lemma torch_where_sets:
  assumes "shape2 p = (h, w)"
  shows "set (fst (torch_where p)) = {y. y < h \<and> (\<exists>x<w. at2 p y x)}"
    and "set (snd (torch_where p)) = {x. x < w \<and> (\<exists>y<h. at2 p y x)}"
    and "fst (torch_where p) = [] \<longleftrightarrow> snd (torch_where p) = []"
proof -
  let ?pos = "[(y, x). y \<leftarrow> [0..<h], x \<leftarrow> [0..<w], at2 p y x]"
  have tw: "torch_where p = (map fst ?pos, map snd ?pos)"
    using assms by (simp add: torch_where_def Let_def)
  have sp: "set ?pos = {(y, x) | y x. y < h \<and> x < w \<and> at2 p y x}"
    by (rule set_select2)
  show "set (fst (torch_where p)) = {y. y < h \<and> (\<exists>x<w. at2 p y x)}"
    unfolding tw fst_conv set_map sp by force
  show "set (snd (torch_where p)) = {x. x < w \<and> (\<exists>y<h. at2 p y x)}"
    unfolding tw snd_conv set_map sp by force
  show "fst (torch_where p) = [] \<longleftrightarrow> snd (torch_where p) = []"
    unfolding tw by simp
qed

lemma boxes_loop_Inr:
  "boxes_loop ps = Inr bs \<Longrightarrow>
   length bs = length ps \<and>
   (\<forall>i<length ps. fst (torch_where (ps ! i)) \<noteq> [] \<and> snd (torch_where (ps ! i)) \<noteq> [] \<and>
      bs ! i = [int (Min (set (snd (torch_where (ps ! i))))),
                int (Min (set (fst (torch_where (ps ! i))))),
                int (Max (set (snd (torch_where (ps ! i))))),
                int (Max (set (fst (torch_where (ps ! i)))))])"
proof (induction ps arbitrary: bs)
  case Nil
  then show ?case by simp
next
  case (Cons p ps)
  from Cons.prems obtain bs' where
    b: "snd (torch_where p) \<noteq> []" "fst (torch_where p) \<noteq> []" "boxes_loop ps = Inr bs'"
       "bs = [int (Min (set (snd (torch_where p)))), int (Min (set (fst (torch_where p)))),
              int (Max (set (snd (torch_where p)))), int (Max (set (fst (torch_where p))))] # bs'"
    by (auto simp: Let_def bindE_eq_Inr torch_min_def torch_max_def split: if_splits)
  from Cons.IH[OF b(3)] b show ?case
    by (auto simp: nth_Cons split: nat.splits)
qed

lemma concat_rows_nth:
  "\<forall>b \<in> set bs. length b = n \<Longrightarrow> i < length bs \<Longrightarrow> j < n \<Longrightarrow>
   n * i + j < length (concat bs) \<and> concat bs ! (n * i + j) = bs ! i ! j"
proof (induction bs arbitrary: i)
  case Nil
  then show ?case by simp
next
  case (Cons b bs)
  show ?case
  proof (cases i)
    case 0
    with Cons.prems show ?thesis by (simp add: nth_append)
  next
    case (Suc k)
    with Cons.prems Cons.IH[of k] show ?thesis
      by (simp add: nth_append add.assoc)
  qed
qed

lemma float32_exact: "\<bar>v\<bar> \<le> 2 ^ 24 \<Longrightarrow> float32_of_int v = v"
  by (simp add: float32_of_int_def)

lemma bbox_tensor:
  assumes "bs \<noteq> []" and "\<forall>b \<in> set bs. length b = 4"
  shows "dshape (to_dtype Float32 (torch_tensor_rows bs)) = [length bs, 4]"
    and "dtype (to_dtype Float32 (torch_tensor_rows bs)) = Float32"
    and "i < length bs \<Longrightarrow> j < 4 \<Longrightarrow>
         dvals (to_dtype Float32 (torch_tensor_rows bs)) ! (4 * i + j) = float32_of_int (bs ! i ! j)"
proof -
  from assms have "length (hd bs) = 4" by (cases bs) auto
  with assms(1) show "dshape (to_dtype Float32 (torch_tensor_rows bs)) = [length bs, 4]"
    by (simp add: torch_tensor_rows_def)
  show "dtype (to_dtype Float32 (torch_tensor_rows bs)) = Float32"
    by simp
  assume "i < length bs" "j < 4"
  from concat_rows_nth[OF assms(2) this] assms(1)
  show "dvals (to_dtype Float32 (torch_tensor_rows bs)) ! (4 * i + j) = float32_of_int (bs ! i ! j)"
    by (simp add: torch_tensor_rows_def)
qed

text \<open>
  Claim C3.  In every sample \<open>__getitem__\<close> returns (no transform set), for an image
  of at most \<open>2^24\<close> rows and columns (where single precision holds every
  coordinate exactly), the box of each instance mask is
  (min column, min row, max column, max row) over its true pixels, stored as row
  \<open>i\<close> of a floating-point tensor of shape \<open>I \<times> 4\<close>.
\<close>

theorem bounding_box_extent:
  assumes "ds_transforms self = None" and "getitem env store self index = Inr smp"
    and "store (ds_filepath self) = Some f"
    and "h5_getitem (h5_gt f) index = Inr mask_array"
    and "h5_getitem (h5_gt_instance f) index = Inr instance_array"
    and "shape3 (s_mask smp) = (m, h, w)" and "i < m"
    and "h \<le> 2 ^ 24" and "w \<le> 2 ^ 24"
  shows "(\<exists>y<h. \<exists>x<w. at3 (s_mask smp) i y x = 1) \<and>
         dshape (s_bbox_xyxy smp) = [m, 4] \<and> dtype (s_bbox_xyxy smp) = Float32 \<and>
         dvals (s_bbox_xyxy smp) ! (4 * i) =
           int (Min {x. x < w \<and> (\<exists>y<h. at3 (s_mask smp) i y x = 1)}) \<and>
         dvals (s_bbox_xyxy smp) ! (4 * i + 1) =
           int (Min {y. y < h \<and> (\<exists>x<w. at3 (s_mask smp) i y x = 1)}) \<and>
         dvals (s_bbox_xyxy smp) ! (4 * i + 2) =
           int (Max {x. x < w \<and> (\<exists>y<h. at3 (s_mask smp) i y x = 1)}) \<and>
         dvals (s_bbox_xyxy smp) ! (4 * i + 3) =
           int (Max {y. y < h \<and> (\<exists>x<w. at3 (s_mask smp) i y x = 1)})"
proof -
  let ?cols = "{x. x < w \<and> (\<exists>y<h. at3 (s_mask smp) i y x = 1)}"
  let ?rows = "{y. y < h \<and> (\<exists>x<w. at3 (s_mask smp) i y x = 1)}"
  from getitem_target[OF assms(1-5)]
  obtain masks bs where
    p: "boxes_loop (planes masks) = Inr bs"
       "s_mask smp = to_uint8 masks" "s_bbox_xyxy smp = to_dtype Float32 (torch_tensor_rows bs)"
    by (rule target_of_parts)
  from p(2) assms(6) have sh: "shape3 masks = (m, h, w)" by (simp add: to_uint8_shape)
  note bl = boxes_loop_Inr[OF p(1)]
  from bl sh have len: "length bs = m" by (simp add: planes_length)
  have pl: "planes masks ! i = \<lparr>shape2 = (h, w), at2 = at3 masks i\<rparr>"
    by (rule planes_nth[OF sh assms(7)])
  have sh2: "shape2 (planes masks ! i) = (h, w)" by (simp add: pl)
  have rows: "set (fst (torch_where (planes masks ! i))) = ?rows"
    unfolding torch_where_sets(1)[OF sh2] by (simp add: pl p(2) to_uint8_true)
  have cols: "set (snd (torch_where (planes masks ! i))) = ?cols"
    unfolding torch_where_sets(2)[OF sh2] by (simp add: pl p(2) to_uint8_true)
  from bl assms(7) sh have
    b: "fst (torch_where (planes masks ! i)) \<noteq> []" "snd (torch_where (planes masks ! i)) \<noteq> []"
       "bs ! i = [int (Min ?cols), int (Min ?rows), int (Max ?cols), int (Max ?rows)]"
    by (simp_all add: planes_length rows cols)
  from b(1) rows have rne: "?rows \<noteq> {}" by (metis set_empty)
  from b(2) cols have cne: "?cols \<noteq> {}" by (metis set_empty)
  from rne have ne: "\<exists>y<h. \<exists>x<w. at3 (s_mask smp) i y x = 1" by auto
  have fr: "finite ?rows" and fc: "finite ?cols" by simp_all
  have "Min ?rows \<in> ?rows" "Max ?rows \<in> ?rows" "Min ?cols \<in> ?cols" "Max ?cols \<in> ?cols"
    by (rule Min_in[OF fr rne], rule Max_in[OF fr rne], rule Min_in[OF fc cne],
        rule Max_in[OF fc cne])
  then have bnd: "Min ?rows < h" "Max ?rows < h" "Min ?cols < w" "Max ?cols < w"
    by simp_all
  have ex: "float32_of_int (int (Min ?cols)) = int (Min ?cols)"
       "float32_of_int (int (Min ?rows)) = int (Min ?rows)"
       "float32_of_int (int (Max ?cols)) = int (Max ?cols)"
       "float32_of_int (int (Max ?rows)) = int (Max ?rows)"
    using bnd assms(8,9) by (auto intro!: float32_exact)
  have l4: "\<forall>b \<in> set bs. length b = 4"
  proof
    fix b assume "b \<in> set bs"
    then obtain k where k: "k < length bs" "b = bs ! k" by (auto simp: in_set_conv_nth)
    with bl show "length b = 4" by simp
  qed
  have ne_bs: "bs \<noteq> []" using len assms(7) by auto
  have il: "i < length bs" using len assms(7) by simp
  note bt = bbox_tensor[OF ne_bs l4]
  from bt(3)[OF il, of 0] bt(3)[OF il, of 1] bt(3)[OF il, of 2] bt(3)[OF il, of 3]
  have "dvals (s_bbox_xyxy smp) ! (4 * i) = int (Min ?cols)"
       "dvals (s_bbox_xyxy smp) ! (4 * i + 1) = int (Min ?rows)"
       "dvals (s_bbox_xyxy smp) ! (4 * i + 2) = int (Max ?cols)"
       "dvals (s_bbox_xyxy smp) ! (4 * i + 3) = int (Max ?rows)"
    by (simp_all add: p(3) b(3) ex del: to_dtype.simps)
  moreover have "dshape (s_bbox_xyxy smp) = [m, 4]" "dtype (s_bbox_xyxy smp) = Float32"
    using bt(1,2) len by (simp_all add: p(3) del: to_dtype.simps)
  ultimately show ?thesis using ne by blast
qed

theorem bounding_box_extent_witness:
  "\<exists>smp. getitem ex_env ex_store ex_ds 0 = Inr smp \<and>
     dshape (s_bbox_xyxy smp) = [2, 4] \<and> dvals (s_bbox_xyxy smp) = [2, 0, 3, 0, 4, 0, 4, 0] \<and>
     Min {x. x < 5 \<and> (\<exists>y<1. at3 (s_mask smp) 0 y x = 1)} = 2 \<and>
     Min {y. y < 1 \<and> (\<exists>x<5. at3 (s_mask smp) 0 y x = 1)} = 0 \<and>
     Max {x. x < 5 \<and> (\<exists>y<1. at3 (s_mask smp) 0 y x = 1)} = 3 \<and>
     Max {y. y < 1 \<and> (\<exists>x<5. at3 (s_mask smp) 0 y x = 1)} = 0 \<and>
     Min {x. x < 5 \<and> (\<exists>y<1. at3 (s_mask smp) 1 y x = 1)} = 4 \<and>
     Max {x. x < 5 \<and> (\<exists>y<1. at3 (s_mask smp) 1 y x = 1)} = 4"
proof -
  obtain smp where smp: "getitem ex_env ex_store ex_ds 0 = Inr smp"
      "shape3 (s_mask smp) = (2, 1, 5)"
      "s_bbox_xyxy smp = \<lparr>dtype = Float32, dshape = [2, 4], dvals = [2, 0, 3, 0, 4, 0, 4, 0]\<rparr>"
    by (rule ex_sample_returned)
  have b: "(1::nat) \<le> 2 ^ 24" "(5::nat) \<le> 2 ^ 24" by simp_all
  note t = bounding_box_extent[where store = ex_store and self = ex_ds,
      OF ex_reads(1) smp(1) ex_reads(2-4) smp(2) _ b]
  from t[of 0] t[of 1] smp show ?thesis by (auto simp: numeral_eq_Suc)
qed

lemma labels_loop_succeeds:
  "\<forall>p \<in> set ps. \<exists>sel. masked_select mt (unsqueeze0 p) = Inr sel \<and> sel \<noteq> [] \<Longrightarrow>
   \<exists>ls. labels_loop mt ps = Inr ls"
proof (induction ps)
  case Nil
  then show ?case by simp
next
  case (Cons p ps)
  then obtain sel ls where "masked_select mt (unsqueeze0 p) = Inr sel" "sel \<noteq> []"
      "labels_loop mt ps = Inr ls"
    by auto
  then show ?case by (simp add: first_unique)
qed

lemma boxes_loop_succeeds:
  "\<forall>p \<in> set ps. fst (torch_where p) \<noteq> [] \<Longrightarrow> \<exists>bs. boxes_loop ps = Inr bs"
proof (induction ps)
  case Nil
  then show ?case by simp
next
  case (Cons p ps)
  then obtain bs where b: "fst (torch_where p) \<noteq> []" "boxes_loop ps = Inr bs" by auto
  obtain h w where "shape2 p = (h, w)" by (cases "shape2 p")
  from torch_where_sets(3)[OF this] b(1) have "snd (torch_where p) \<noteq> []" by simp
  with b show ?case by (simp add: Let_def torch_min_def torch_max_def)
qed

lemma target_of_single_channel:
  assumes "shape3 instance_array = (h, w, 1)" and "shape3 mask_array = (h, w, 1)"
  shows "\<exists>m b l. target_of mask_array instance_array = Inr (m, b, l)"
proof -
  let ?t = "permute_201 instance_array"
  let ?mt = "permute_201 mask_array"
  let ?ids = "instance_ids_of ?t"
  have sh: "shape3 ?t = (1, h, w)" "shape3 ?mt = (1, h, w)"
    using assms by (simp_all add: permute_201_def)
  from eq_broadcast_single[OF sh(1), of ?ids]
  obtain masks where m: "eq_broadcast ?t ?ids = Inr masks" "shape3 masks = (length ?ids, h, w)"
      "\<forall>i<length ?ids. \<forall>y x. at3 masks i y x = (at3 ?t 0 y x = ?ids ! i)"
    by auto
  have true_pixel: "\<exists>y<h. \<exists>x<w. at3 masks i y x" if "i < length ?ids" for i
  proof -
    from that have "?ids ! i \<in> set ?ids" by simp
    then have "?ids ! i \<in> set (flatten3 ?t)"
      by (simp add: instance_ids_of_def torch_unique_def)
    then obtain y x where "y < h" "x < w" "at3 ?t 0 y x = ?ids ! i"
      unfolding set_flatten3[OF sh(1)] by auto
    with m(3) that show ?thesis by auto
  qed
  have lab: "\<forall>p \<in> set (planes masks). \<exists>sel. masked_select ?mt (unsqueeze0 p) = Inr sel \<and> sel \<noteq> []"
  proof
    fix p assume "p \<in> set (planes masks)"
    then obtain i where i: "i < length ?ids" "p = \<lparr>shape2 = (h, w), at2 = at3 masks i\<rparr>"
      using m(2) by (auto simp: planes_def)
    let ?sel = "[at3 ?mt k y x. k \<leftarrow> [0..<1], y \<leftarrow> [0..<h], x \<leftarrow> [0..<w], at2 p y x]"
    have ms: "masked_select ?mt (unsqueeze0 p) = Inr ?sel"
      using sh(2) i(2) by (simp add: masked_select_def unsqueeze0_def)
    have "set ?sel = {at3 ?mt k y x | k y x. k < 1 \<and> y < h \<and> x < w \<and> at2 p y x}"
      by (rule set_select3)
    with true_pixel[OF i(1)] i(2) have "set ?sel \<noteq> {}" by auto
    then have "?sel \<noteq> []" by (metis set_empty)
    with ms show "\<exists>sel. masked_select ?mt (unsqueeze0 p) = Inr sel \<and> sel \<noteq> []" by blast
  qed
  have box: "\<forall>p \<in> set (planes masks). fst (torch_where p) \<noteq> []"
  proof
    fix p assume "p \<in> set (planes masks)"
    then obtain i where i: "i < length ?ids" "p = \<lparr>shape2 = (h, w), at2 = at3 masks i\<rparr>"
      using m(2) by (auto simp: planes_def)
    have "shape2 p = (h, w)" by (simp add: i(2))
    from torch_where_sets(1)[OF this] true_pixel[OF i(1)] i(2)
    have "set (fst (torch_where p)) \<noteq> {}" by auto
    then show "fst (torch_where p) \<noteq> []" by (metis set_empty)
  qed
  from labels_loop_succeeds[OF lab] boxes_loop_succeeds[OF box] m(1)
  show ?thesis by (auto simp: target_of_def Let_def)
qed

lemma getitem_single_channel_returns:
  assumes "ds_transforms self = None" and "load_image env store self index = Inr img"
    and "store (ds_filepath self) = Some f"
    and "h5_getitem (h5_gt f) index = Inr mask_array"
    and "h5_getitem (h5_gt_instance f) index = Inr instance_array"
    and "shape3 instance_array = (h, w, 1)" and "shape3 mask_array = (h, w, 1)"
  shows "\<exists>smp. getitem env store self index = Inr smp"
proof -
  from target_of_single_channel[OF assms(6,7)]
  obtain m b l where "target_of mask_array instance_array = Inr (m, b, l)" by blast
  from getitem_returns[OF assms(1-5) this] show ?thesis by blast
qed

lemma sample_schema:
  assumes "ds_transforms self = None" and "getitem env store self index = Inr smp"
    and "store (ds_filepath self) = Some f"
    and "h5_getitem (h5_gt f) index = Inr mask_array"
    and "h5_getitem (h5_gt_instance f) index = Inr instance_array"
    and "shape3 (s_mask smp) = (m, h, w)"
  shows "(\<forall>i y x. at3 (s_mask smp) i y x = 0 \<or> at3 (s_mask smp) i y x = 1) \<and>
         dtype (s_bbox_xyxy smp) = Float32 \<and>
         dshape (s_bbox_xyxy smp) = (if m = 0 then [0] else [m, 4]) \<and>
         dtype (s_label smp) = Int64 \<and> dshape (s_label smp) = [m]"
proof -
  from getitem_target[OF assms(1-5)]
  obtain masks ls bs where
    p: "labels_loop (permute_201 mask_array) (planes masks) = Inr ls"
       "boxes_loop (planes masks) = Inr bs"
       "s_mask smp = to_uint8 masks" "s_bbox_xyxy smp = to_dtype Float32 (torch_tensor_rows bs)"
       "s_label smp = to_dtype Int64 (torch_tensor_list ls)"
    by (rule target_of_parts)
  from p(3) assms(6) have sh: "shape3 masks = (m, h, w)" by (simp add: to_uint8_shape)
  from labels_loop_Inr[OF p(1)] sh have ll: "length ls = m" by (simp add: planes_length)
  note bl = boxes_loop_Inr[OF p(2)]
  from bl sh have lb: "length bs = m" by (simp add: planes_length)
  have box: "dshape (s_bbox_xyxy smp) = (if m = 0 then [0] else [m, 4])"
  proof (cases "bs = []")
    case True
    with lb show ?thesis by (simp add: p(4) torch_tensor_rows_def)
  next
    case False
    then have "hd bs = bs ! 0" by (simp add: hd_conv_nth)
    moreover from False bl have "0 < length (planes masks)" by (cases bs) auto
    ultimately have "length (hd bs) = 4" using bl by auto
    moreover from False lb have "m \<noteq> 0" by auto
    ultimately show ?thesis using False lb by (simp add: p(4) torch_tensor_rows_def)
  qed
  have "\<forall>i y x. at3 (s_mask smp) i y x = 0 \<or> at3 (s_mask smp) i y x = 1"
    by (simp add: p(3) to_uint8_def)
  with box ll show ?thesis by (simp add: p(4,5) label_tensor)
qed

text \<open>
  Claim C4 at an index whose instance array holds background only: the sample has no
  mask plane and no label, and its box tensor is \<open>torch.tensor([])\<close> converted to
  float, of shape \<open>(0,)\<close> and not \<open>(0, 4)\<close>.  For a sample with at least one
  instance the shapes are those of the claim (lemma \<open>sample_schema\<close>).
\<close>

theorem background_only_sample:
  "returned (shape3 \<circ> s_mask) (getitem ex_env ex_store_background ex_ds 0) = Some (0, 1, 5) \<and>
   returned s_bbox_xyxy (getitem ex_env ex_store_background ex_ds 0) =
     Some \<lparr>dtype = Float32, dshape = [0], dvals = []\<rparr> \<and>
   returned s_label (getitem ex_env ex_store_background ex_ds 0) =
     Some \<lparr>dtype = Int64, dshape = [0], dvals = []\<rparr>"
  by code_simp

end
